theory Spec2Isabelle
  imports Complex_Main "HOL-Library.AList"
begin

section \<open>The Docker sandbox of \<^verbatim>\<open>services/docker_sandbox.py\<close>\<close>

text \<open>
  The class \<^verbatim>\<open>DockerSandbox\<close> runs submitted Python code in Docker containers. Its
  state is the Docker client (or \<^verbatim>\<open>None\<close> when Docker could not be reached) and the
  dictionary \<^verbatim>\<open>containers\<close> that tracks every container it created together with
  its expiry.

  The Docker daemon, the file system and the clocks are outside the program. Every
  call to them is modelled by its outcome: the value it returns or the exception it
  raises. The outcomes are arguments of the model, so a theorem about all arguments
  is a theorem about everything the daemon may answer. Each function also returns the
  list of outside calls it made, in order.

  The functions are coroutines that never await anything but each other, so one call
  runs from start to end without another one in between; the model is sequential.
  Exceptions are those that \<^verbatim>\<open>except Exception\<close> catches; an interrupt or a cancellation
  of the task is outside the model. The background task handle \<^verbatim>\<open>cleanup_task\<close> is left
  out.
\<close>

subsection \<open>Outcomes of calls, Python values and text\<close>

text \<open>
  \<open>Raise m\<close> is an exception (an instance of \<^verbatim>\<open>Exception\<close>) whose \<^verbatim>\<open>str(e)\<close> is \<open>m\<close>.
\<close>

datatype 'a res = Ok 'a | Raise string

text \<open>
  The values a test case or a solution can hold. \<open>PyOther s\<close> stands for an object of
  any other type (a float, a list, a dictionary ...), known by the text \<open>s\<close> that
  \<^verbatim>\<open>str()\<close> returns for it.
\<close>

datatype pyval = PyNone | PyBool bool | PyInt int | PyStr string | PyOther string

definition digit_char :: "nat \<Rightarrow> char" where
  "digit_char d = char_of (48 + d)"

function str_nat :: "nat \<Rightarrow> string" where
  "str_nat n = (if n < 10 then [digit_char n] else str_nat (n div 10) @ [digit_char (n mod 10)])"
  by pat_completeness auto
termination
  by (relation "measure (\<lambda>n. n)") auto

definition str_int :: "int \<Rightarrow> string" where
  "str_int i = (if i < 0 then CHR ''-'' # str_nat (nat (- i)) else str_nat (nat i))"

fun py_str :: "pyval \<Rightarrow> string" where
  "py_str PyNone = ''None''"
| "py_str (PyBool b) = (if b then ''True'' else ''False'')"
| "py_str (PyInt i) = str_int i"
| "py_str (PyStr s) = s"
| "py_str (PyOther s) = s"

text \<open>
  \<^verbatim>\<open>str.isspace\<close> on one character, for the code points below 256 that a \<open>char\<close> holds:
  tab to carriage return, the four separators U+001C to U+001F, the space, U+0085 and
  U+00A0. \<^verbatim>\<open>str.strip()\<close> removes such characters from both ends.
\<close>

definition isspace :: "char \<Rightarrow> bool" where
  "isspace c =
     (let n = (of_char c :: nat)
      in (9 \<le> n \<and> n \<le> 13) \<or> (28 \<le> n \<and> n \<le> 32) \<or> n = 133 \<or> n = 160)"

definition strip :: "string \<Rightarrow> string" where
  "strip s = rev (dropWhile isspace (rev (dropWhile isspace s)))"

text \<open>
  \<^verbatim>\<open>str.lower\<close>, for the code points below 256: the letters A to Z and the capital
  letters U+00C0 to U+00DE (but the sign U+00D7) move up by 32.
\<close>

definition lower_char :: "char \<Rightarrow> char" where
  "lower_char c =
     (let n = (of_char c :: nat)
      in if (65 \<le> n \<and> n \<le> 90) \<or> (192 \<le> n \<and> n \<le> 214) \<or> (216 \<le> n \<and> n \<le> 222)
         then char_of (n + 32) else c)"

definition lower :: "string \<Rightarrow> string" where
  "lower s = map lower_char s"

text \<open>\<^verbatim>\<open>d.get(key, default)\<close> on a dictionary kept as an association list.\<close>

definition dict_get :: "('k \<times> 'v) list \<Rightarrow> 'k \<Rightarrow> 'v \<Rightarrow> 'v" where
  "dict_get d k dflt = (case map_of d k of None \<Rightarrow> dflt | Some v \<Rightarrow> v)"

subsection \<open>Configuration, state and outside calls\<close>

text \<open>The Docker part of \<^verbatim>\<open>config.Settings\<close>, with its defaults.\<close>

record settings =
  DOCKER_TIMEOUT :: int
  DOCKER_MEMORY_LIMIT :: string
  DOCKER_CPU_QUOTA :: int
  CONTAINER_TTL :: int

definition default_settings :: settings where
  "default_settings =
     \<lparr>DOCKER_TIMEOUT = 30, DOCKER_MEMORY_LIMIT = ''256m'', DOCKER_CPU_QUOTA = 50000,
      CONTAINER_TTL = 300\<rparr>"

text \<open>
  A \<^verbatim>\<open>datetime\<close> is a count of microseconds; \<^verbatim>\<open>timedelta(seconds=n)\<close> is \<open>n\<close> million
  of them. A registry entry is the dictionary with the keys \<^verbatim>\<open>created_at\<close> and
  \<^verbatim>\<open>expires_at\<close>.
\<close>

definition timedelta_seconds :: "int \<Rightarrow> int" where
  "timedelta_seconds n = 1000000 * n"

record container_info =
  created_at :: int
  expires_at :: int

text \<open>
  \<^verbatim>\<open>self.containers\<close>: a Python dictionary keeps its keys in insertion order, an
  assignment to a present key keeps its place (\<open>AList.update\<close>) and \<^verbatim>\<open>del\<close> removes
  the key (\<open>AList.delete\<close>).
\<close>

type_synonym registry = "(string \<times> container_info) list"

datatype docker_client = DockerClient

record sandbox =
  client :: "docker_client option"
  containers :: registry

text \<open>
  The outside calls. \<open>TempFileWrite code\<close> creates the temporary file and writes the
  code; \<open>ContainersCreate file dir mem cpu stdin\<close> is \<^verbatim>\<open>client.containers.create\<close> with
  the command \<^verbatim>\<open>python file\<close>, the directory mounted read-only at \<^verbatim>\<open>/code\<close>, the memory
  limit, the CPU quota and \<^verbatim>\<open>stdin_open\<close> (the network mode is always \<^verbatim>\<open>none\<close>); the
  others name the container they act on, the file they unlink or the line they print.
\<close>

datatype call =
    TempFileWrite string
  | ContainersCreate string string string int bool
  | ContainerStart string
  | ContainerWait string int
  | ContainerLogs string
  | ContainerStop string
  | ContainerRemove string
  | ContainersGet string
  | Unlink string
  | Print string

text \<open>The containers on which a removal was attempted: those looked up by id.\<close>

fun looked_up :: "call list \<Rightarrow> string list" where
  "looked_up [] = []"
| "looked_up (ContainersGet cid # cs) = cid # looked_up cs"
| "looked_up (c # cs) = looked_up cs"

text \<open>The calls that stop or remove the container \<open>cid\<close>.\<close>

fun destroys :: "string \<Rightarrow> call \<Rightarrow> bool" where
  "destroys cid (ContainerStop c) = (c = cid)"
| "destroys cid (ContainerRemove c) = (c = cid)"
| "destroys cid other = False"

subsection \<open>\<^verbatim>\<open>_remove_container\<close>\<close>

text \<open>
  What the daemon answers to the three calls of \<^verbatim>\<open>_remove_container\<close>:
  \<^verbatim>\<open>client.containers.get\<close> (which raises \<^verbatim>\<open>NotFound\<close> for a container that is gone),
  \<^verbatim>\<open>container.stop\<close> and \<^verbatim>\<open>container.remove\<close>.
\<close>

record remove_env =
  get_res :: "unit res"
  rm_stop_res :: "unit res"
  rm_remove_res :: "unit res"

text \<open>The body of the \<^verbatim>\<open>try\<close>: nothing is called without a client.\<close>

definition remove_try :: "sandbox \<Rightarrow> string \<Rightarrow> remove_env \<Rightarrow> unit res \<times> call list" where
  "remove_try sb container_id env =
     (case client sb of
        None \<Rightarrow> (Ok (), [])
      | Some cl \<Rightarrow>
          (case get_res env of
             Raise m \<Rightarrow> (Raise m, [ContainersGet container_id])
           | Ok u \<Rightarrow>
               (case rm_stop_res env of
                  Raise m \<Rightarrow> (Raise m, [ContainersGet container_id, ContainerStop container_id])
                | Ok u \<Rightarrow>
                    (case rm_remove_res env of
                       Raise m \<Rightarrow>
                         (Raise m,
                          [ContainersGet container_id, ContainerStop container_id,
                           ContainerRemove container_id])
                     | Ok u \<Rightarrow>
                         (Ok (),
                          [ContainersGet container_id, ContainerStop container_id,
                           ContainerRemove container_id,
                           Print (''Removed container: '' @ container_id)])))))"

text \<open>
  \<^verbatim>\<open>except Exception\<close> prints the error and goes on; \<^verbatim>\<open>finally\<close> deletes the registry
  entry when there is one. The result is the exception that leaves the function, if
  any.
\<close>

definition remove_container ::
  "sandbox \<Rightarrow> string \<Rightarrow> remove_env \<Rightarrow> unit res \<times> sandbox \<times> call list" where
  "remove_container sb container_id env =
     (case remove_try sb container_id env of
        (r, cs) \<Rightarrow>
          (let handled =
                 (case r of
                    Ok u \<Rightarrow> (Ok (), cs)
                  | Raise m \<Rightarrow>
                      (Ok (),
                       cs @ [Print (''Error removing container '' @ container_id @ '': '' @ m)]));
               sb' =
                 (if container_id \<in> set (map fst (containers sb))
                  then sb\<lparr>containers := AList.delete container_id (containers sb)\<rparr>
                  else sb)
           in (fst handled, sb', snd handled)))"

subsection \<open>\<^verbatim>\<open>cleanup_expired_containers\<close>, \<^verbatim>\<open>_cleanup_loop\<close> and \<^verbatim>\<open>shutdown\<close>\<close>

definition expired :: "int \<Rightarrow> registry \<Rightarrow> string list" where
  "expired current_time reg =
     map fst (filter (\<lambda>(container_id, info). current_time > expires_at info) reg)"

text \<open>
  \<^verbatim>\<open>for container_id in ...: await self._remove_container(container_id)\<close>; \<open>daemon\<close>
  gives the daemon's answers for each container. An exception that left
  \<^verbatim>\<open>_remove_container\<close> would end the loop.
\<close>

fun remove_each ::
  "sandbox \<Rightarrow> (string \<Rightarrow> remove_env) \<Rightarrow> string list \<Rightarrow> unit res \<times> sandbox \<times> call list" where
  "remove_each sb daemon [] = (Ok (), sb, [])"
| "remove_each sb daemon (container_id # ids) =
     (case remove_container sb container_id (daemon container_id) of
        (Raise m, sb', cs) \<Rightarrow> (Raise m, sb', cs)
      | (Ok u, sb', cs) \<Rightarrow>
          (case remove_each sb' daemon ids of (r, sb'', cs') \<Rightarrow> (r, sb'', cs @ cs')))"

definition cleanup_expired_containers ::
  "sandbox \<Rightarrow> int \<Rightarrow> (string \<Rightarrow> remove_env) \<Rightarrow> unit res \<times> sandbox \<times> call list" where
  "cleanup_expired_containers sb current_time daemon =
     remove_each sb daemon (expired current_time (containers sb))"

text \<open>
  \<^verbatim>\<open>_cleanup_loop\<close> never ends by itself; the model runs it for a given list of ticks,
  each with the clock reading of its sweep and the daemon's answers during it.
\<close>

fun cleanup_loop ::
  "sandbox \<Rightarrow> (int \<times> (string \<Rightarrow> remove_env)) list \<Rightarrow> unit res \<times> sandbox \<times> call list" where
  "cleanup_loop sb [] = (Ok (), sb, [])"
| "cleanup_loop sb ((current_time, daemon) # ticks) =
     (case cleanup_expired_containers sb current_time daemon of
        (Raise m, sb', cs) \<Rightarrow> (Raise m, sb', cs)
      | (Ok u, sb', cs) \<Rightarrow>
          (case cleanup_loop sb' ticks of (r, sb'', cs') \<Rightarrow> (r, sb'', cs @ cs')))"

definition shutdown ::
  "sandbox \<Rightarrow> (string \<Rightarrow> remove_env) \<Rightarrow> unit res \<times> sandbox \<times> call list" where
  "shutdown sb daemon = remove_each sb daemon (map fst (containers sb))"

subsection \<open>\<^verbatim>\<open>execute_python_code\<close>\<close>

text \<open>
  The result dictionary of \<^verbatim>\<open>execute_python_code\<close>; \<open>None\<close> is Python's \<^verbatim>\<open>None\<close>. The
  field \<open>output_text\<close> is the key \<^verbatim>\<open>output\<close>. Elapsed time is a difference of two
  \<^verbatim>\<open>time.time()\<close> readings, kept as a real number.
\<close>

record execution_outcome =
  success :: bool
  output_text :: "string option"
  error :: "string option"
  execution_time :: real

text \<open>
  The outside world during one call, in the order of the calls:
  \<^verbatim>\<open>time.time()\<close> at the start; the temporary file that receives the code (the
  directory and the base name of \<^verbatim>\<open>f.name\<close>); \<^verbatim>\<open>client.containers.create\<close> (the id of the
  new container); the two \<^verbatim>\<open>datetime.utcnow()\<close> readings of the registration;
  \<^verbatim>\<open>container.start\<close>; \<^verbatim>\<open>container.wait\<close> (the dictionary it returns, or a time-out);
  \<^verbatim>\<open>container.logs(...).decode\<close>; the second attempt at the logs in the handler; the
  \<^verbatim>\<open>time.time()\<close> reading when the result is built (each path reads the clock once);
  \<^verbatim>\<open>container.stop\<close> and \<^verbatim>\<open>container.remove\<close> of the clean-up. What \<^verbatim>\<open>os.unlink\<close> does
  is discarded by the code either way.
\<close>

record exec_env =
  start_clock :: real
  tempfile_res :: "(string \<times> string) res"
  create_res :: "string res"
  utcnow_created :: int
  utcnow_expires :: int
  start_res :: "unit res"
  wait_res :: "(string \<times> int) list res"
  logs_res :: "string res"
  retry_logs_res :: "string res"
  end_clock :: real
  stop_res :: "unit res"
  remove_res :: "unit res"

text \<open>The local variables that the \<^verbatim>\<open>finally\<close> block reads; \<open>None\<close> is an unbound name.\<close>

record exec_locals =
  temp_file :: "(string \<times> string) option"
  container :: "string option"

text \<open>Lines 127 to 131: \<^verbatim>\<open>self.containers[container.id] = {...}\<close>.\<close>

definition track_container :: "settings \<Rightarrow> exec_env \<Rightarrow> string \<Rightarrow> sandbox \<Rightarrow> sandbox" where
  "track_container cfg env cid sb =
     sb\<lparr>containers :=
          AList.update cid
            \<lparr>created_at = utcnow_created env,
             expires_at = utcnow_expires env + timedelta_seconds (CONTAINER_TTL cfg)\<rparr>
            (containers sb)\<rparr>"

text \<open>The handler of the inner \<^verbatim>\<open>try\<close> (lines 161 to 173).\<close>

definition wait_failed :: "exec_env \<Rightarrow> string \<Rightarrow> string \<Rightarrow> execution_outcome \<times> call list" where
  "wait_failed env cid m =
     (\<lparr>success = False,
       output_text = (case retry_logs_res env of Ok logs \<Rightarrow> Some logs | Raise m' \<Rightarrow> None),
       error = Some (''Execution timeout or error: '' @ m),
       execution_time = end_clock env - start_clock env\<rparr>,
      [ContainerLogs cid])"

text \<open>The inner \<^verbatim>\<open>try\<close> (lines 137 to 173): it returns on every path.\<close>

definition wait_container :: "exec_env \<Rightarrow> string \<Rightarrow> int \<Rightarrow> execution_outcome \<times> call list" where
  "wait_container env cid timeout =
     (case wait_res env of
        Raise m \<Rightarrow>
          (case wait_failed env cid m of (out, cs) \<Rightarrow> (out, ContainerWait cid timeout # cs))
      | Ok result \<Rightarrow>
          (case logs_res env of
             Raise m \<Rightarrow>
               (case wait_failed env cid m of
                  (out, cs) \<Rightarrow> (out, [ContainerWait cid timeout, ContainerLogs cid] @ cs))
           | Ok logs \<Rightarrow>
               (let execution_time = end_clock env - start_clock env;
                    exit_code = dict_get result ''StatusCode'' 1
                in (if exit_code = 0
                    then \<lparr>success = True, output_text = Some logs, error = None,
                          execution_time = execution_time\<rparr>
                    else \<lparr>success = False, output_text = Some logs,
                          error = Some (''Process exited with code '' @ str_int exit_code),
                          execution_time = execution_time\<rparr>,
                    [ContainerWait cid timeout, ContainerLogs cid]))))"

text \<open>
  The outer \<^verbatim>\<open>try\<close> body (lines 106 to 173): the value it returns or the exception it
  raises, the local variables bound so far, the state and the calls.
\<close>

definition try_body ::
  "settings \<Rightarrow> sandbox \<Rightarrow> exec_env \<Rightarrow> string \<Rightarrow> string option \<Rightarrow> int \<Rightarrow>
   execution_outcome res \<times> exec_locals \<times> sandbox \<times> call list" where
  "try_body cfg sb env code test_input timeout =
     (case tempfile_res env of
        Raise m \<Rightarrow> (Raise m, \<lparr>temp_file = None, container = None\<rparr>, sb, [TempFileWrite code])
      | Ok tf \<Rightarrow>
          (let create =
                 ContainersCreate (''/code/'' @ snd tf) (fst tf) (DOCKER_MEMORY_LIMIT cfg)
                   (DOCKER_CPU_QUOTA cfg)
                   (case test_input of None \<Rightarrow> False | Some t \<Rightarrow> t \<noteq> [])
           in case create_res env of
                Raise m \<Rightarrow>
                  (Raise m, \<lparr>temp_file = Some tf, container = None\<rparr>, sb,
                   [TempFileWrite code, create])
              | Ok cid \<Rightarrow>
                  (let sb' = track_container cfg env cid sb;
                       locals = \<lparr>temp_file = Some tf, container = Some cid\<rparr>;
                       cs = [TempFileWrite code, create, ContainerStart cid]
                   in case start_res env of
                        Raise m \<Rightarrow> (Raise m, locals, sb', cs)
                      | Ok u \<Rightarrow>
                          (case wait_container env cid timeout of
                             (out, cs') \<Rightarrow> (Ok out, locals, sb', cs @ cs')))))"

text \<open>
  The \<^verbatim>\<open>finally\<close> block (lines 183 to 196). Its first \<^verbatim>\<open>try\<close> stops the container,
  removes it and then deletes the registry entry; an exception at any of these
  statements (also the \<^verbatim>\<open>NameError\<close> of an unbound \<^verbatim>\<open>container\<close>) skips the rest of that
  \<^verbatim>\<open>try\<close>. The second unlinks the temporary file.
\<close>

definition cleanup :: "exec_env \<Rightarrow> exec_locals \<Rightarrow> sandbox \<Rightarrow> sandbox \<times> call list" where
  "cleanup env locals sb =
     (let first =
            (case container locals of
               None \<Rightarrow> (sb, [])
             | Some cid \<Rightarrow>
                 (case stop_res env of
                    Raise m \<Rightarrow> (sb, [ContainerStop cid])
                  | Ok u \<Rightarrow>
                      (case remove_res env of
                         Raise m \<Rightarrow> (sb, [ContainerStop cid, ContainerRemove cid])
                       | Ok u \<Rightarrow>
                           (if cid \<in> set (map fst (containers sb))
                            then sb\<lparr>containers := AList.delete cid (containers sb)\<rparr>
                            else sb,
                            [ContainerStop cid, ContainerRemove cid]))));
          second =
            (case temp_file locals of
               None \<Rightarrow> []
             | Some tf \<Rightarrow> [Unlink (fst tf @ ''/'' @ snd tf)])
      in (fst first, snd first @ second))"

text \<open>
  \<^verbatim>\<open>execute_python_code\<close>: the disabled client returns at once; otherwise the body
  runs, \<^verbatim>\<open>except Exception\<close> turns an exception of the body into a result, and the
  \<^verbatim>\<open>finally\<close> block runs last. \<^verbatim>\<open>timeout or settings.DOCKER_TIMEOUT\<close> takes the default
  for \<^verbatim>\<open>None\<close> and for 0.
\<close>

definition execute_python_code ::
  "settings \<Rightarrow> sandbox \<Rightarrow> exec_env \<Rightarrow> string \<Rightarrow> string option \<Rightarrow> int option \<Rightarrow>
   execution_outcome res \<times> sandbox \<times> call list" where
  "execute_python_code cfg sb env code test_input timeout =
     (case client sb of
        None \<Rightarrow>
          (Ok \<lparr>success = False, output_text = None, error = Some ''Docker client not available'',
               execution_time = 0\<rparr>,
           sb, [])
      | Some cl \<Rightarrow>
          (let timeout' =
                 (case timeout of
                    None \<Rightarrow> DOCKER_TIMEOUT cfg
                  | Some t \<Rightarrow> if t = 0 then DOCKER_TIMEOUT cfg else t)
           in case try_body cfg sb env code test_input timeout' of
                (r, locals, sb', cs) \<Rightarrow>
                  (let returned =
                         (case r of
                            Ok out \<Rightarrow> Ok out
                          | Raise m \<Rightarrow>
                              Ok \<lparr>success = False, output_text = None, error = Some m,
                                   execution_time = end_clock env - start_clock env\<rparr>)
                   in case cleanup env locals sb' of
                        (sb'', cs') \<Rightarrow> (returned, sb'', cs @ cs'))))"

subsection \<open>The test harness\<close>

text \<open>
  The program text that \<^verbatim>\<open>execute_code_with_tests\<close> builds for one test case (lines
  211 to 244): the f-string with \<^verbatim>\<open>{test_input}\<close> and \<^verbatim>\<open>{code}\<close> filled in.
\<close>

definition wrapped_code :: "string \<Rightarrow> pyval \<Rightarrow> string" where
  "wrapped_code code test_input =
     ''\<newline>'' @
     ''import sys\<newline>'' @
     ''import io\<newline>'' @
     ''import json\<newline>'' @
     ''\<newline>'' @
     ''# Test input (may be JSON string)\<newline>'' @
     ''test_input_raw = '' @ [CHR 0x27, CHR 0x27, CHR 0x27] @ py_str test_input @
       [CHR 0x27, CHR 0x27, CHR 0x27] @ ''\<newline>'' @
     ''\<newline>'' @
     ''# User'' @ [CHR 0x27] @ ''s code\<newline>'' @
     code @ ''\<newline>'' @
     ''\<newline>'' @
     ''# Parse input and call solution\<newline>'' @
     ''try:\<newline>'' @
     ''    # Try to parse as JSON to handle quoted strings\<newline>'' @
     ''    try:\<newline>'' @
     ''        parsed_input = json.loads(test_input_raw)\<newline>'' @
     ''    except:\<newline>'' @
     ''        # If not JSON, use as-is\<newline>'' @
     ''        parsed_input = test_input_raw\<newline>'' @
     ''    \<newline>'' @
     ''    # Call the solution function\<newline>'' @
     ''    if isinstance(parsed_input, list):\<newline>'' @
     ''        # Multiple arguments\<newline>'' @
     ''        result = solution(*parsed_input)\<newline>'' @
     ''    else:\<newline>'' @
     ''        # Single argument\<newline>'' @
     ''        result = solution(parsed_input)\<newline>'' @
     ''    \<newline>'' @
     ''    # Print result\<newline>'' @
     ''    print(str(result).lower() if isinstance(result, bool) else result)\<newline>'' @
     ''except Exception as e:\<newline>'' @
     ''    print(f'' @ [CHR 0x22] @ ''Error: {e}'' @ [CHR 0x22] @ '', file=sys.stderr)\<newline>'' @
     ''    raise\<newline>''"

text \<open>
  The text after the user's code (lines 222 to 243) is a small Python program. It is
  kept here as a syntax tree with just the forms that occur in it; \<open>render_block\<close>
  prints a tree as Python text, four spaces to a level, and the tree's text is proved
  below to be the tail of \<open>wrapped_code\<close>, character for character.
  \<open>Try body name handler\<close> is \<^verbatim>\<open>try: ... except: ...\<close> when \<open>name\<close> is \<open>None\<close> and
  \<^verbatim>\<open>try: ... except Exception as name: ...\<close> otherwise; \<open>IfStmt c T yes no\<close> is
  \<^verbatim>\<open>if isinstance(c, T): ... else: ...\<close>; \<open>IfIsInstance a c T b\<close> is the expression
  \<^verbatim>\<open>a if isinstance(c, T) else b\<close>; \<open>StrLower e\<close> is \<^verbatim>\<open>str(e).lower()\<close>; \<open>FString text x\<close> is
  the f-string with the text followed by \<^verbatim>\<open>{x}\<close>; \<open>Blank\<close> is a line that holds the
  indentation only.
\<close>

datatype pytype = TList | TBool

datatype expr =
    Name string
  | JsonLoads expr
  | Solution expr
  | SolutionStar expr
  | StrLower expr
  | IfIsInstance expr expr pytype expr
  | FString string string

datatype stmt =
    Comment string
  | Blank
  | Assign string expr
  | Try "stmt list" "string option" "stmt list"
  | IfStmt expr pytype "stmt list" "stmt list"
  | PrintOut expr
  | PrintErr expr
  | Reraise

definition harness_program :: "stmt list" where
  "harness_program =
     [Comment ''Parse input and call solution'',
      Try
        [Comment ''Try to parse as JSON to handle quoted strings'',
         Try [Assign ''parsed_input'' (JsonLoads (Name ''test_input_raw''))]
           None
           [Comment ''If not JSON, use as-is'',
            Assign ''parsed_input'' (Name ''test_input_raw'')],
         Blank,
         Comment ''Call the solution function'',
         IfStmt (Name ''parsed_input'') TList
           [Comment ''Multiple arguments'',
            Assign ''result'' (SolutionStar (Name ''parsed_input''))]
           [Comment ''Single argument'',
            Assign ''result'' (Solution (Name ''parsed_input''))],
         Blank,
         Comment ''Print result'',
         PrintOut (IfIsInstance (StrLower (Name ''result'')) (Name ''result'') TBool (Name ''result''))]
        (Some ''e'')
        [PrintErr (FString ''Error: '' ''e''), Reraise]]"

fun render_type :: "pytype \<Rightarrow> string" where
  "render_type TList = ''list''"
| "render_type TBool = ''bool''"

fun render_expr :: "expr \<Rightarrow> string" where
  "render_expr (Name x) = x"
| "render_expr (JsonLoads e) = ''json.loads('' @ render_expr e @ '')''"
| "render_expr (Solution e) = ''solution('' @ render_expr e @ '')''"
| "render_expr (SolutionStar e) = ''solution(*'' @ render_expr e @ '')''"
| "render_expr (StrLower e) = ''str('' @ render_expr e @ '').lower()''"
| "render_expr (IfIsInstance a c T b) =
     render_expr a @ '' if isinstance('' @ render_expr c @ '', '' @ render_type T @ '') else ''
       @ render_expr b"
| "render_expr (FString text x) = ''f'' @ [CHR 0x22] @ text @ ''{'' @ x @ ''}'' @ [CHR 0x22]"

definition indent :: "nat \<Rightarrow> string" where
  "indent n = replicate (4 * n) CHR '' ''"

fun render_stmt :: "nat \<Rightarrow> stmt \<Rightarrow> string"
  and render_block :: "nat \<Rightarrow> stmt list \<Rightarrow> string" where
  "render_stmt n (Comment text) = indent n @ ''# '' @ text @ ''\<newline>''"
| "render_stmt n Blank = indent n @ ''\<newline>''"
| "render_stmt n (Assign x e) = indent n @ x @ '' = '' @ render_expr e @ ''\<newline>''"
| "render_stmt n (Try body name handler) =
     indent n @ ''try:\<newline>'' @ render_block (n + 1) body
     @ indent n
     @ (case name of None \<Rightarrow> ''except:'' | Some e \<Rightarrow> ''except Exception as '' @ e @ '':'')
     @ ''\<newline>'' @ render_block (n + 1) handler"
| "render_stmt n (IfStmt c T yes no) =
     indent n @ ''if isinstance('' @ render_expr c @ '', '' @ render_type T @ ''):\<newline>''
     @ render_block (n + 1) yes
     @ indent n @ ''else:\<newline>'' @ render_block (n + 1) no"
| "render_stmt n (PrintOut e) = indent n @ ''print('' @ render_expr e @ '')\<newline>''"
| "render_stmt n (PrintErr e) = indent n @ ''print('' @ render_expr e @ '', file=sys.stderr)\<newline>''"
| "render_stmt n Reraise = indent n @ ''raise\<newline>''"
| "render_block n [] = []"
| "render_block n (s # ss) = render_stmt n s @ render_block n ss"


text \<open>
  A value of the running harness is a list or a value that is not a list.
\<close>

datatype parsed = ParsedList "pyval list" | ParsedValue pyval

text \<open>
  What the harness calls and does not define: \<^verbatim>\<open>json.loads\<close>; the user's \<^verbatim>\<open>solution\<close>
  applied to its positional arguments (a user's code that defines no \<^verbatim>\<open>solution\<close> is
  the function that always raises the \<^verbatim>\<open>NameError\<close>); \<^verbatim>\<open>str()\<close> of a list; and the
  arguments that \<^verbatim>\<open>*v\<close> passes for a \<open>v\<close> that is not a list.
\<close>

record py_world =
  json_loads :: "parsed \<Rightarrow> parsed res"
  solution :: "parsed list \<Rightarrow> parsed res"
  list_str :: "pyval list \<Rightarrow> string"
  unpack :: "pyval \<Rightarrow> parsed list res"

text \<open>\<^verbatim>\<open>str(v)\<close>, and \<^verbatim>\<open>isinstance(v, list)\<close> and \<^verbatim>\<open>isinstance(v, bool)\<close>.\<close>

fun py_text :: "py_world \<Rightarrow> parsed \<Rightarrow> string" where
  "py_text w (ParsedValue v) = py_str v"
| "py_text w (ParsedList xs) = list_str w xs"

fun isinstance :: "parsed \<Rightarrow> pytype \<Rightarrow> bool" where
  "isinstance (ParsedList xs) TList = True"
| "isinstance (ParsedValue (PyBool b)) TBool = True"
| "isinstance v T = False"

definition name_error :: "string \<Rightarrow> string" where
  "name_error x = ''name '' @ [CHR 0x27] @ x @ [CHR 0x27] @ '' is not defined''"

fun eval :: "py_world \<Rightarrow> (string \<times> parsed) list \<Rightarrow> expr \<Rightarrow> parsed res" where
  "eval w vars (Name x) =
     (case map_of vars x of None \<Rightarrow> Raise (name_error x) | Some v \<Rightarrow> Ok v)"
| "eval w vars (JsonLoads e) =
     (case eval w vars e of Raise m \<Rightarrow> Raise m | Ok v \<Rightarrow> json_loads w v)"
| "eval w vars (Solution e) =
     (case eval w vars e of Raise m \<Rightarrow> Raise m | Ok v \<Rightarrow> solution w [v])"
| "eval w vars (SolutionStar e) =
     (case eval w vars e of
        Raise m \<Rightarrow> Raise m
      | Ok (ParsedList xs) \<Rightarrow> solution w (map ParsedValue xs)
      | Ok (ParsedValue v) \<Rightarrow>
          (case unpack w v of Raise m \<Rightarrow> Raise m | Ok args \<Rightarrow> solution w args))"
| "eval w vars (StrLower e) =
     (case eval w vars e of
        Raise m \<Rightarrow> Raise m
      | Ok v \<Rightarrow> Ok (ParsedValue (PyStr (lower (py_text w v)))))"
| "eval w vars (IfIsInstance a c T b) =
     (case eval w vars c of
        Raise m \<Rightarrow> Raise m
      | Ok v \<Rightarrow> if isinstance v T then eval w vars a else eval w vars b)"
| "eval w vars (FString text x) =
     (case map_of vars x of
        None \<Rightarrow> Raise (name_error x)
      | Some v \<Rightarrow> Ok (ParsedValue (PyStr (text @ py_text w v))))"

text \<open>
  The variables and the two output channels. A statement runs in a state and gives the
  new state and the exception that leaves it, if any; \<open>active\<close> is the exception being
  handled, which a bare \<^verbatim>\<open>raise\<close> raises again. \<^verbatim>\<open>print\<close> writes \<^verbatim>\<open>str()\<close> of its
  argument and a newline. The name bound by \<^verbatim>\<open>except ... as\<close> holds the exception, an
  object whose \<^verbatim>\<open>str()\<close> is its message, and is deleted when the handler is left.
\<close>

record run_state =
  variables :: "(string \<times> parsed) list"
  stdout :: string
  stderr :: string

fun exec_stmt :: "py_world \<Rightarrow> string option \<Rightarrow> stmt \<Rightarrow> run_state \<Rightarrow> run_state \<times> unit res"
  and exec_block ::
    "py_world \<Rightarrow> string option \<Rightarrow> stmt list \<Rightarrow> run_state \<Rightarrow> run_state \<times> unit res" where
  "exec_stmt w active (Comment text) st = (st, Ok ())"
| "exec_stmt w active Blank st = (st, Ok ())"
| "exec_stmt w active (Assign x e) st =
     (case eval w (variables st) e of
        Raise m \<Rightarrow> (st, Raise m)
      | Ok v \<Rightarrow> (st\<lparr>variables := AList.update x v (variables st)\<rparr>, Ok ()))"
| "exec_stmt w active (Try body name handler) st =
     (case exec_block w active body st of
        (st', Ok u) \<Rightarrow> (st', Ok ())
      | (st', Raise m) \<Rightarrow>
          (case name of
             None \<Rightarrow> exec_block w (Some m) handler st'
           | Some e \<Rightarrow>
               (case exec_block w (Some m) handler
                       (st'\<lparr>variables := AList.update e (ParsedValue (PyOther m)) (variables st')\<rparr>) of
                  (st'', r) \<Rightarrow> (st''\<lparr>variables := AList.delete e (variables st'')\<rparr>, r))))"
| "exec_stmt w active (IfStmt c T yes no) st =
     (case eval w (variables st) c of
        Raise m \<Rightarrow> (st, Raise m)
      | Ok v \<Rightarrow> if isinstance v T then exec_block w active yes st else exec_block w active no st)"
| "exec_stmt w active (PrintOut e) st =
     (case eval w (variables st) e of
        Raise m \<Rightarrow> (st, Raise m)
      | Ok v \<Rightarrow> (st\<lparr>stdout := stdout st @ py_text w v @ ''\<newline>''\<rparr>, Ok ()))"
| "exec_stmt w active (PrintErr e) st =
     (case eval w (variables st) e of
        Raise m \<Rightarrow> (st, Raise m)
      | Ok v \<Rightarrow> (st\<lparr>stderr := stderr st @ py_text w v @ ''\<newline>''\<rparr>, Ok ()))"
| "exec_stmt w active Reraise st =
     (case active of
        None \<Rightarrow> (st, Raise ''No active exception to reraise'')
      | Some m \<Rightarrow> (st, Raise m))"
| "exec_block w active [] st = (st, Ok ())"
| "exec_block w active (s # ss) st =
     (case exec_stmt w active s st of
        (st', Raise m) \<Rightarrow> (st', Raise m)
      | (st', Ok u) \<Rightarrow> exec_block w active ss st')"

text \<open>
  The harness run after the user's code has defined \<^verbatim>\<open>solution\<close>: \<open>test_input_raw\<close> is
  the string that Python reads from the literal in the head. What the user's code
  itself prints comes before and is not part of this run.
\<close>

definition run_harness :: "py_world \<Rightarrow> string \<Rightarrow> run_state \<times> unit res" where
  "run_harness w test_input_raw =
     exec_block w None harness_program
       \<lparr>variables = [(''test_input_raw'', ParsedValue (PyStr test_input_raw))],
        stdout = [], stderr = []\<rparr>"

text \<open>The arguments with which the harness calls \<^verbatim>\<open>solution\<close>.\<close>

definition call_arguments :: "py_world \<Rightarrow> string \<Rightarrow> parsed list" where
  "call_arguments w test_input_raw =
     (case (case json_loads w (ParsedValue (PyStr test_input_raw)) of
              Ok p \<Rightarrow> p
            | Raise m \<Rightarrow> ParsedValue (PyStr test_input_raw)) of
        ParsedList xs \<Rightarrow> map ParsedValue xs
      | ParsedValue v \<Rightarrow> [ParsedValue v])"

subsection \<open>\<^verbatim>\<open>execute_code_with_tests\<close>\<close>

text \<open>
  A test case is a dictionary. A result is one of the two dictionaries that the loop
  appends: the compared one with the keys \<^verbatim>\<open>test_case\<close>, \<^verbatim>\<open>passed\<close>, \<^verbatim>\<open>input\<close>,
  \<^verbatim>\<open>expected\<close>, \<^verbatim>\<open>actual\<close>, \<^verbatim>\<open>execution_time\<close>, or the failed one with \<^verbatim>\<open>test_case\<close>,
  \<^verbatim>\<open>passed\<close>, \<^verbatim>\<open>input\<close>, \<^verbatim>\<open>expected\<close>, \<^verbatim>\<open>error\<close>, \<^verbatim>\<open>output\<close>, \<^verbatim>\<open>execution_time\<close>.
  The constructors take the values in that order. In the compared one \<^verbatim>\<open>expected\<close> is
  the stripped text, in the failed one it is the value as given. The returned
  dictionary has the keys \<^verbatim>\<open>success\<close> (the field \<open>suite_success\<close>), \<^verbatim>\<open>test_results\<close>,
  \<^verbatim>\<open>total_tests\<close> and \<^verbatim>\<open>passed_tests\<close>.
\<close>

type_synonym test_case = "(string \<times> pyval) list"

datatype test_result =
    Compared (test_case: nat) (passed: bool) (input_value: pyval) (expected_text: string)
      (actual: string) (elapsed: real)
  | Failed (test_case: nat) (passed: bool) (input_value: pyval) (expected_raw: pyval)
      (failure: "string option") (partial_output: "string option") (elapsed: real)

record suite_result =
  suite_success :: bool
  test_results :: "test_result list"
  total_tests :: nat
  passed_tests :: nat

text \<open>
  Lines 248 to 278 for the test case at position \<open>i\<close> (from 0): the result to append
  and the new value of \<^verbatim>\<open>all_passed\<close>. The method \<^verbatim>\<open>strip\<close> of the output raises
  \<^verbatim>\<open>AttributeError\<close> on \<^verbatim>\<open>None\<close>.
\<close>

definition judge ::
  "nat \<Rightarrow> test_case \<Rightarrow> execution_outcome \<Rightarrow> bool \<Rightarrow> (test_result \<times> bool) res" where
  "judge i tc result all_passed =
     (let test_input = dict_get tc ''input'' (PyStr []);
          expected_output = dict_get tc ''expected_output'' (PyStr [])
      in if success result
         then (case output_text result of
                 None \<Rightarrow> Raise ''AttributeError''
               | Some out \<Rightarrow>
                   (let actual_output = strip out;
                        expected = strip (py_str expected_output);
                        passed = (actual_output = expected)
                    in Ok (Compared (i + 1) passed test_input expected actual_output
                             (execution_time result),
                           if \<not> passed then False else all_passed)))
         else Ok (Failed (i + 1) False test_input expected_output (error result)
                    (output_text result) (execution_time result),
                  False))"

text \<open>
  The loop over \<^verbatim>\<open>enumerate(test_cases)\<close>, from position \<open>i\<close> on. \<open>envs i\<close> is the outside
  world during the execution of test case \<open>i\<close>. An exception that leaves
  \<^verbatim>\<open>execute_python_code\<close> or the comparison ends the loop and the function.
\<close>

fun run_tests ::
  "settings \<Rightarrow> (nat \<Rightarrow> exec_env) \<Rightarrow> string \<Rightarrow> nat \<Rightarrow> test_case list \<Rightarrow>
   sandbox \<times> test_result list \<times> bool \<times> call list \<Rightarrow>
   (sandbox \<times> test_result list \<times> bool \<times> call list) res" where
  "run_tests cfg envs code i [] st = Ok st"
| "run_tests cfg envs code i (tc # tcs) (sb, results, all_passed, cs) =
     (case execute_python_code cfg sb (envs i)
             (wrapped_code code (dict_get tc ''input'' (PyStr []))) None None of
        (Raise m, sb', cs') \<Rightarrow> Raise m
      | (Ok result, sb', cs') \<Rightarrow>
          (case judge i tc result all_passed of
             Raise m \<Rightarrow> Raise m
           | Ok (r, all_passed') \<Rightarrow>
               run_tests cfg envs code (i + 1) tcs (sb', results @ [r], all_passed', cs @ cs')))"

definition execute_code_with_tests ::
  "settings \<Rightarrow> sandbox \<Rightarrow> (nat \<Rightarrow> exec_env) \<Rightarrow> string \<Rightarrow> test_case list \<Rightarrow>
   (suite_result \<times> sandbox \<times> call list) res" where
  "execute_code_with_tests cfg sb envs code test_cases =
     (case run_tests cfg envs code 0 test_cases (sb, [], True, []) of
        Raise m \<Rightarrow> Raise m
      | Ok (sb', results, all_passed, cs) \<Rightarrow>
          Ok (\<lparr>suite_success = all_passed, test_results = results,
               total_tests = length test_cases,
               passed_tests = length (filter passed results)\<rparr>,
              sb', cs))"

text \<open>
  The test case with both keys present: a key that is missing gets the empty string,
  as in \<^verbatim>\<open>{'input': '', 'expected_output': '', **test_case}\<close>.
\<close>

definition fill_missing :: "test_case \<Rightarrow> test_case" where
  "fill_missing tc = tc @ [(''input'', PyStr []), (''expected_output'', PyStr [])]"

subsection \<open>Example inputs\<close>

text \<open>
  A daemon that fails to stop container \<open>a\<close> and obeys otherwise, a sandbox that
  tracks two containers, and an outside world in which every call succeeds.
\<close>

definition sweep_daemon :: "string \<Rightarrow> remove_env" where
  "sweep_daemon cid =
     (if cid = ''a'' then \<lparr>get_res = Ok (), rm_stop_res = Raise ''500 Server Error'', rm_remove_res = Ok ()\<rparr>
      else \<lparr>get_res = Ok (), rm_stop_res = Ok (), rm_remove_res = Ok ()\<rparr>)"

definition sweep_sandbox :: sandbox where
  "sweep_sandbox =
     \<lparr>client = Some DockerClient,
      containers = [(''a'', \<lparr>created_at = 0, expires_at = 5\<rparr>),
                    (''b'', \<lparr>created_at = 0, expires_at = 5000\<rparr>)]\<rparr>"

definition quiet_env :: exec_env where
  "quiet_env =
     \<lparr>start_clock = 0, tempfile_res = Ok (''/tmp'', ''tmpq.py''), create_res = Ok ''c'',
      utcnow_created = 6, utcnow_expires = 6, start_res = Ok (), wait_res = Ok [(''StatusCode'', 0)],
      logs_res = Ok [], retry_logs_res = Ok [], end_clock = 1, stop_res = Ok (),
      remove_res = Ok ()\<rparr>"

text \<open>
  Three test cases, the last one without any key, and a world in which the container
  of the first cannot be created while the others run and print \<^verbatim>\<open>3\<close>.
\<close>

definition suite_cases :: "test_case list" where
  "suite_cases =
     [[(''input'', PyStr ''[1, 2]''), (''expected_output'', PyStr ''3'')],
      [(''input'', PyStr ''[1, 2]''), (''expected_output'', PyInt 3)],
      []]"

definition suite_envs :: "nat \<Rightarrow> exec_env" where
  "suite_envs i =
     (if i = 0 then quiet_env\<lparr>create_res := Raise ''No such image''\<rparr>
      else quiet_env\<lparr>logs_res := Ok ''3\<newline>''\<rparr>)"


section \<open>Properties\<close>

subsection \<open>The registry and \<^verbatim>\<open>_remove_container\<close>\<close>

lemma delete_absent: "k \<notin> set (map fst al) \<Longrightarrow> AList.delete k al = al"
  by (induction al) (auto simp: AList.delete_eq)

lemma looked_up_append: "looked_up (xs @ ys) = looked_up xs @ looked_up ys"
  by (induction xs rule: looked_up.induct) auto

lemma remove_try_looked_up:
  "remove_try sb cid env = (r, cs) \<Longrightarrow> looked_up cs = (if client sb = None then [] else [cid])"
  by (auto simp: remove_try_def split: option.splits res.splits)

lemma remove_container_eq:
  "remove_container sb cid env =
     (Ok (), sb\<lparr>containers := AList.delete cid (containers sb)\<rparr>,
      snd (snd (remove_container sb cid env)))"
  by (auto simp: remove_container_def Let_def delete_absent split: prod.splits res.splits)

lemma remove_container_looked_up:
  "looked_up (snd (snd (remove_container sb cid env))) = (if client sb = None then [] else [cid])"
  by (auto simp: remove_container_def Let_def looked_up_append
      dest: remove_try_looked_up split: prod.splits res.splits)

lemma remove_container_destroys:
  "c \<in> set (snd (snd (remove_container sb cid env))) \<Longrightarrow> destroys k c \<Longrightarrow> k = cid"
  by (auto simp: remove_container_def remove_try_def Let_def
      split: prod.splits res.splits option.splits)

lemma remove_container_gone_calls:
  "get_res env = Raise m \<Longrightarrow>
   snd (snd (remove_container sb cid env)) =
     (if client sb = None then []
      else [ContainersGet cid, Print (''Error removing container '' @ cid @ '': '' @ m)])"
  by (auto simp: remove_container_def remove_try_def Let_def split: option.splits)

text \<open>
  C8. Removing a container that is already gone (the daemon answers the look-up with
  an exception) or that has no registry entry any more never raises: the function
  returns normally whatever the daemon answers. It then makes no stop and no remove
  call, it leaves the client alone, and the registry afterwards is the registry
  without the entry of that container; when there was no entry the state is unchanged.
\<close>

theorem remove_container_gone_is_noop:
  "fst (remove_container sb cid env) = Ok ()
   \<and> containers (fst (snd (remove_container sb cid env))) = AList.delete cid (containers sb)
   \<and> cid \<notin> set (map fst (containers (fst (snd (remove_container sb cid env)))))
   \<and> client (fst (snd (remove_container sb cid env))) = client sb
   \<and> (get_res env = Raise m \<longrightarrow>
        filter (destroys cid) (snd (snd (remove_container sb cid env))) = [])
   \<and> (cid \<notin> set (map fst (containers sb)) \<longrightarrow> fst (snd (remove_container sb cid env)) = sb)"
proof -
  let ?r = "remove_container sb cid env"
  have eq: "?r = (Ok (), sb\<lparr>containers := AList.delete cid (containers sb)\<rparr>, snd (snd ?r))"
    by (rule remove_container_eq)
  have a: "fst ?r = Ok ()"
    by (subst eq) simp
  have b: "fst (snd ?r) = sb\<lparr>containers := AList.delete cid (containers sb)\<rparr>"
    by (subst eq) simp
  have c: "cid \<notin> set (map fst (AList.delete cid (containers sb)))"
    using AList.delete_notin_dom[of cid "containers sb"] by simp
  have d: "get_res env = Raise m \<longrightarrow> filter (destroys cid) (snd (snd ?r)) = []"
    by (simp add: remove_container_gone_calls)
  have e: "cid \<notin> set (map fst (containers sb)) \<longrightarrow> fst (snd ?r) = sb"
    by (simp add: b delete_absent)
  show ?thesis
    using a c d e by (simp add: b)
qed

theorem remove_container_gone_is_noop_witness:
  "get_res \<lparr>get_res = Raise ''404 Not Found'', rm_stop_res = Ok (), rm_remove_res = Ok ()\<rparr>
     = Raise ''404 Not Found''
   \<and> remove_container
        \<lparr>client = Some DockerClient,
         containers = [(''c1'', \<lparr>created_at = 0, expires_at = 5\<rparr>)]\<rparr> ''c1''
        \<lparr>get_res = Raise ''404 Not Found'', rm_stop_res = Ok (), rm_remove_res = Ok ()\<rparr>
     = (Ok (), \<lparr>client = Some DockerClient, containers = []\<rparr>,
        [ContainersGet ''c1'', Print ''Error removing container c1: 404 Not Found''])
   \<and> remove_container \<lparr>client = Some DockerClient, containers = []\<rparr> ''c1''
        \<lparr>get_res = Raise ''404 Not Found'', rm_stop_res = Ok (), rm_remove_res = Ok ()\<rparr>
     = (Ok (), \<lparr>client = Some DockerClient, containers = []\<rparr>,
        [ContainersGet ''c1'', Print ''Error removing container c1: 404 Not Found''])"
  using remove_container_gone_is_noop
    [of "\<lparr>client = Some DockerClient, containers = []\<rparr>" "''c1''"
        "\<lparr>get_res = Raise ''404 Not Found'', rm_stop_res = Ok (), rm_remove_res = Ok ()\<rparr>"
        "''404 Not Found''"]
  by (simp add: remove_container_def remove_try_def AList.delete_eq)

subsection \<open>The sweep\<close>

lemma remove_each_eq:
  "\<exists>cs. remove_each sb daemon ids =
          (Ok (), sb\<lparr>containers := filter (\<lambda>(k, info). k \<notin> set ids) (containers sb)\<rparr>, cs)
        \<and> looked_up cs = (if client sb = None then [] else ids)
        \<and> (\<forall>c\<in>set cs. \<forall>k. destroys k c \<longrightarrow> k \<in> set ids)"
proof (induction ids arbitrary: sb)
  case Nil
  then show ?case by simp
next
  case (Cons cid ids)
  let ?sb1 = "sb\<lparr>containers := AList.delete cid (containers sb)\<rparr>"
  obtain cs1 where r1: "remove_container sb cid (daemon cid) = (Ok (), ?sb1, cs1)"
    using remove_container_eq by blast
  have l1: "looked_up cs1 = (if client sb = None then [] else [cid])"
    using remove_container_looked_up[of sb cid "daemon cid"] r1 by simp
  have d1: "\<forall>c\<in>set cs1. \<forall>k. destroys k c \<longrightarrow> k = cid"
    using remove_container_destroys[of _ sb cid "daemon cid"] r1 by auto
  from Cons.IH[of ?sb1] obtain cs2 where
    r2: "remove_each ?sb1 daemon ids =
          (Ok (), ?sb1\<lparr>containers := filter (\<lambda>(k, info). k \<notin> set ids) (containers ?sb1)\<rparr>, cs2)"
    and l2: "looked_up cs2 = (if client ?sb1 = None then [] else ids)"
    and d2: "\<forall>c\<in>set cs2. \<forall>k. destroys k c \<longrightarrow> k \<in> set ids"
    by blast
  have f: "filter (\<lambda>(k, info). k \<notin> set ids) (AList.delete cid (containers sb))
           = filter (\<lambda>(k, info). k \<notin> set (cid # ids)) (containers sb)"
    by (auto simp: AList.delete_eq intro: filter_cong)
  show ?case
    using r1 r2 l1 l2 d1 d2 f by (auto simp: looked_up_append)
qed

lemma expired_mem:
  "(cid, info) \<in> set reg \<Longrightarrow> now > expires_at info \<Longrightarrow> cid \<in> set (expired now reg)"
  by (force simp: expired_def)

lemma expired_iff:
  "distinct (map fst reg) \<Longrightarrow> (cid, info) \<in> set reg \<Longrightarrow>
   cid \<in> set (expired now reg) \<longleftrightarrow> now > expires_at info"
proof
  assume "cid \<in> set (expired now reg)"
  then obtain info' where m: "(cid, info') \<in> set reg" and e: "now > expires_at info'"
    by (auto simp: expired_def)
  assume "distinct (map fst reg)" and "(cid, info) \<in> set reg"
  with m have "info' = info" by (auto dest: eq_key_imp_eq_value)
  with e show "now > expires_at info" by simp
next
  assume "(cid, info) \<in> set reg" and "now > expires_at info"
  then show "cid \<in> set (expired now reg)" by (rule expired_mem)
qed

lemma filter_not_expired:
  "distinct (map fst reg) \<Longrightarrow>
   filter (\<lambda>(k, info). k \<notin> set (expired now reg)) reg
   = filter (\<lambda>(k, info). \<not> now > expires_at info) reg"
  by (rule filter_cong) (auto simp: expired_iff)

lemma cleanup_expired_containers_eq:
  "\<exists>cs. cleanup_expired_containers sb now daemon =
          (Ok (),
           sb\<lparr>containers :=
                filter (\<lambda>(k, info). k \<notin> set (expired now (containers sb))) (containers sb)\<rparr>,
           cs)
        \<and> looked_up cs = (if client sb = None then [] else expired now (containers sb))
        \<and> (\<forall>c\<in>set cs. \<forall>k. destroys k c \<longrightarrow> k \<in> set (expired now (containers sb)))"
  unfolding cleanup_expired_containers_def by (rule remove_each_eq)

lemma track_container_mem:
  "(cid, \<lparr>created_at = utcnow_created env,
           expires_at = utcnow_expires env + timedelta_seconds (CONTAINER_TTL cfg)\<rparr>)
     \<in> set (containers (track_container cfg env cid sb))"
  by (simp add: track_container_def AList.update_conv' map_of_SomeD) 

lemma cleanup_loop_keeps:
  "distinct (map fst (containers sb)) \<Longrightarrow> (cid, info) \<in> set (containers sb) \<Longrightarrow>
   \<forall>t\<in>set (map fst ticks). t \<le> expires_at info \<Longrightarrow>
   \<exists>sb' cs. cleanup_loop sb ticks = (Ok (), sb', cs) \<and> (cid, info) \<in> set (containers sb')
      \<and> distinct (map fst (containers sb'))
      \<and> cid \<notin> set (looked_up cs) \<and> (\<forall>c\<in>set cs. \<not> destroys cid c)"
proof (induction ticks arbitrary: sb)
  case Nil
  then show ?case by simp
next
  case (Cons tick ticks)
  obtain now daemon where tick: "tick = (now, daemon)" by (cases tick)
  let ?sb1 = "sb\<lparr>containers :=
                filter (\<lambda>(k, info). k \<notin> set (expired now (containers sb))) (containers sb)\<rparr>"
  obtain cs1 where s1: "cleanup_expired_containers sb now daemon = (Ok (), ?sb1, cs1)"
    and l1: "looked_up cs1 = (if client sb = None then [] else expired now (containers sb))"
    and d1: "\<forall>c\<in>set cs1. \<forall>k. destroys k c \<longrightarrow> k \<in> set (expired now (containers sb))"
    using cleanup_expired_containers_eq[of sb now daemon] by blast
  have le: "now \<le> expires_at info" using Cons.prems(3) tick by simp
  have ne: "cid \<notin> set (expired now (containers sb))"
    using expired_iff[OF Cons.prems(1) Cons.prems(2), of now] le by simp
  have k1: "(cid, info) \<in> set (containers ?sb1)" using Cons.prems(2) ne by simp
  have dist1: "distinct (map fst (containers ?sb1))"
    using Cons.prems(1) by (simp add: distinct_map_filter)
  have rest: "\<forall>t\<in>set (map fst ticks). t \<le> expires_at info" using Cons.prems(3) by simp
  from Cons.IH[OF dist1 k1 rest] obtain sb' cs2 where
    s2: "cleanup_loop ?sb1 ticks = (Ok (), sb', cs2)" and k2: "(cid, info) \<in> set (containers sb')"
    and dist2: "distinct (map fst (containers sb'))"
    and l2: "cid \<notin> set (looked_up cs2)" and d2: "\<forall>c\<in>set cs2. \<not> destroys cid c"
    by blast
  have "cleanup_loop sb (tick # ticks) = (Ok (), sb', cs1 @ cs2)"
    using s1 s2 tick by simp
  moreover have "cid \<notin> set (looked_up (cs1 @ cs2))"
    using l1 l2 ne by (simp add: looked_up_append)
  moreover have "\<forall>c\<in>set (cs1 @ cs2). \<not> destroys cid c"
    using d1 d2 ne by auto
  ultimately show ?case using k2 dist2 by blast
qed


text \<open>
  The keys of the registry stay distinct, as in a dictionary, and \<^verbatim>\<open>shutdown\<close> empties
  the registry without raising.
\<close>

lemma track_container_distinct:
  "distinct (map fst (containers sb)) \<Longrightarrow>
   distinct (map fst (containers (track_container cfg env cid sb)))"
  by (simp add: track_container_def AList.distinct_update)

lemma remove_container_distinct:
  "distinct (map fst (containers sb)) \<Longrightarrow>
   distinct (map fst (containers (fst (snd (remove_container sb cid env)))))"
  by (subst remove_container_eq) (simp add: AList.distinct_delete)

lemma shutdown_empties_registry:
  "\<exists>cs. shutdown sb daemon = (Ok (), sb\<lparr>containers := []\<rparr>, cs)"
proof -
  have "filter (\<lambda>(k, info). k \<notin> set (map fst (containers sb))) (containers sb) = []"
    by (force simp: filter_empty_conv)
  then show ?thesis
    using remove_each_eq[of sb daemon "map fst (containers sb)"] by (auto simp: shutdown_def)
qed

lemma remove_container_attempt:
  "client sb \<noteq> None \<Longrightarrow>
   ContainersGet cid \<in> set (snd (snd (remove_container sb cid env)))
   \<and> (get_res env = Ok () \<longrightarrow> ContainerStop cid \<in> set (snd (snd (remove_container sb cid env))))
   \<and> (get_res env = Ok () \<and> rm_stop_res env = Ok ()
        \<longrightarrow> ContainerRemove cid \<in> set (snd (snd (remove_container sb cid env))))"
  by (auto simp: remove_container_def remove_try_def Let_def split: option.splits res.splits)

lemma remove_each_calls:
  "snd (snd (remove_each sb daemon (cid # ids))) =
     snd (snd (remove_container sb cid (daemon cid)))
     @ snd (snd (remove_each (sb\<lparr>containers := AList.delete cid (containers sb)\<rparr>) daemon ids))"
proof -
  obtain cs where r: "remove_container sb cid (daemon cid)
      = (Ok (), sb\<lparr>containers := AList.delete cid (containers sb)\<rparr>, cs)"
    using remove_container_eq by blast
  show ?thesis by (simp add: r split: prod.splits)
qed

lemma remove_each_attempts:
  "client sb \<noteq> None \<Longrightarrow> k \<in> set ids \<Longrightarrow>
   ContainersGet k \<in> set (snd (snd (remove_each sb daemon ids)))
   \<and> (get_res (daemon k) = Ok ()
        \<longrightarrow> ContainerStop k \<in> set (snd (snd (remove_each sb daemon ids))))
   \<and> (get_res (daemon k) = Ok () \<and> rm_stop_res (daemon k) = Ok ()
        \<longrightarrow> ContainerRemove k \<in> set (snd (snd (remove_each sb daemon ids))))"
proof (induction ids arbitrary: sb)
  case Nil
  then show ?case by simp
next
  case (Cons cid ids)
  let ?sb1 = "sb\<lparr>containers := AList.delete cid (containers sb)\<rparr>"
  have cl: "client ?sb1 \<noteq> None" using Cons.prems(1) by simp
  show ?case
  proof (cases "k = cid")
    case True
    then show ?thesis
      using remove_container_attempt[OF Cons.prems(1), of cid "daemon cid"]
      by (simp add: remove_each_calls del: remove_each.simps)
  next
    case False
    then have "k \<in> set ids" using Cons.prems(2) by simp
    from Cons.IH[OF cl this] show ?thesis
      by (simp add: remove_each_calls del: remove_each.simps)
  qed
qed

lemma cleanup_attempts:
  "client sb \<noteq> None \<Longrightarrow> k \<in> set (expired now (containers sb)) \<Longrightarrow>
   ContainersGet k \<in> set (snd (snd (cleanup_expired_containers sb now daemon)))
   \<and> (get_res (daemon k) = Ok ()
        \<longrightarrow> ContainerStop k \<in> set (snd (snd (cleanup_expired_containers sb now daemon))))
   \<and> (get_res (daemon k) = Ok () \<and> rm_stop_res (daemon k) = Ok ()
        \<longrightarrow> ContainerRemove k \<in> set (snd (snd (cleanup_expired_containers sb now daemon))))"
  unfolding cleanup_expired_containers_def by (rule remove_each_attempts)

text \<open>
  C4 (as the code has it). One sweep at clock reading \<open>now\<close> returns normally whatever
  the daemon answers. With a client it tries to destroy exactly the registered
  containers whose \<^verbatim>\<open>expires_at\<close> is before \<open>now\<close>, in registry order: each of them is
  looked up, stopped when the look-up succeeds and removed when the stop succeeds too,
  and no other container is stopped or removed. The registry afterwards is the
  registry without them, whether or not the daemon obeyed.
  A container tracked with a time to live of 0 is expired at every clock reading
  later than the one of its registration: a sweep at such a reading tries to destroy
  it and drops its entry. The comparison is strict, so a sweep that reads the same
  clock value as the registration leaves the entry for a later one (a run of this
  kind follows below). A container whose expiry is not before any of the ticks keeps its
  entry through all of them, and no sweep looks it up, stops it or removes it. The
  registry is a dictionary: where the statement is about the entry of one key, the
  keys are distinct.
\<close>

theorem cleanup_expired_containers_sweeps_expired:
  "(\<exists>cs. cleanup_expired_containers sb now daemon =
          (Ok (),
           sb\<lparr>containers :=
                filter (\<lambda>(k, info). k \<notin> set (expired now (containers sb))) (containers sb)\<rparr>,
           cs)
        \<and> looked_up cs = (if client sb = None then [] else expired now (containers sb))
        \<and> (\<forall>c\<in>set cs. \<forall>k. destroys k c \<longrightarrow> k \<in> set (expired now (containers sb)))
        \<and> (\<forall>k\<in>set (expired now (containers sb)). client sb \<noteq> None \<longrightarrow>
              ContainersGet k \<in> set cs
              \<and> (get_res (daemon k) = Ok () \<longrightarrow> ContainerStop k \<in> set cs)
              \<and> (get_res (daemon k) = Ok () \<and> rm_stop_res (daemon k) = Ok ()
                   \<longrightarrow> ContainerRemove k \<in> set cs)))
   \<and> (distinct (map fst (containers sb)) \<longrightarrow>
        filter (\<lambda>(k, info). k \<notin> set (expired now (containers sb))) (containers sb)
        = filter (\<lambda>(k, info). \<not> now > expires_at info) (containers sb))
   \<and> (CONTAINER_TTL cfg = 0 \<and> utcnow_expires env < now \<longrightarrow>
        cid \<in> set (expired now (containers (track_container cfg env cid sb)))
        \<and> cid \<notin> set (map fst (containers (fst (snd
              (cleanup_expired_containers (track_container cfg env cid sb) now daemon)))))
        \<and> (client sb \<noteq> None \<longrightarrow>
             cid \<in> set (looked_up (snd (snd
               (cleanup_expired_containers (track_container cfg env cid sb) now daemon))))
             \<and> (get_res (daemon cid) = Ok () \<longrightarrow>
                  ContainerStop cid \<in> set (snd (snd
                    (cleanup_expired_containers (track_container cfg env cid sb) now daemon))))
             \<and> (get_res (daemon cid) = Ok () \<and> rm_stop_res (daemon cid) = Ok () \<longrightarrow>
                  ContainerRemove cid \<in> set (snd (snd
                    (cleanup_expired_containers (track_container cfg env cid sb) now daemon))))))
   \<and> (distinct (map fst (containers sb)) \<and> (cid, info) \<in> set (containers sb)
        \<and> (\<forall>t\<in>set (map fst ticks). t \<le> expires_at info) \<longrightarrow>
        (\<exists>sb' cs. cleanup_loop sb ticks = (Ok (), sb', cs) \<and> (cid, info) \<in> set (containers sb')
           \<and> cid \<notin> set (looked_up cs) \<and> (\<forall>c\<in>set cs. \<not> destroys cid c)))"
proof -
  have one: "\<exists>cs. cleanup_expired_containers sb now daemon =
          (Ok (),
           sb\<lparr>containers :=
                filter (\<lambda>(k, info). k \<notin> set (expired now (containers sb))) (containers sb)\<rparr>,
           cs)
        \<and> looked_up cs = (if client sb = None then [] else expired now (containers sb))
        \<and> (\<forall>c\<in>set cs. \<forall>k. destroys k c \<longrightarrow> k \<in> set (expired now (containers sb)))
        \<and> (\<forall>k\<in>set (expired now (containers sb)). client sb \<noteq> None \<longrightarrow>
              ContainersGet k \<in> set cs
              \<and> (get_res (daemon k) = Ok () \<longrightarrow> ContainerStop k \<in> set cs)
              \<and> (get_res (daemon k) = Ok () \<and> rm_stop_res (daemon k) = Ok ()
                   \<longrightarrow> ContainerRemove k \<in> set cs))"
  proof -
    obtain cs where
      s: "cleanup_expired_containers sb now daemon =
          (Ok (),
           sb\<lparr>containers :=
                filter (\<lambda>(k, info). k \<notin> set (expired now (containers sb))) (containers sb)\<rparr>,
           cs)"
      and l: "looked_up cs = (if client sb = None then [] else expired now (containers sb))"
      and d: "\<forall>c\<in>set cs. \<forall>k. destroys k c \<longrightarrow> k \<in> set (expired now (containers sb))"
      using cleanup_expired_containers_eq[of sb now daemon] by blast
    have cs: "snd (snd (cleanup_expired_containers sb now daemon)) = cs"
      by (simp add: s)
    have a: "\<forall>k\<in>set (expired now (containers sb)). client sb \<noteq> None \<longrightarrow>
              ContainersGet k \<in> set cs
              \<and> (get_res (daemon k) = Ok () \<longrightarrow> ContainerStop k \<in> set cs)
              \<and> (get_res (daemon k) = Ok () \<and> rm_stop_res (daemon k) = Ok ()
                   \<longrightarrow> ContainerRemove k \<in> set cs)"
      using cleanup_attempts[of sb _ now daemon] unfolding cs by blast
    from s l d a show ?thesis by blast
  qed
  have two: "distinct (map fst (containers sb)) \<longrightarrow>
        filter (\<lambda>(k, info). k \<notin> set (expired now (containers sb))) (containers sb)
        = filter (\<lambda>(k, info). \<not> now > expires_at info) (containers sb)"
    by (simp add: filter_not_expired)
  have three: "CONTAINER_TTL cfg = 0 \<and> utcnow_expires env < now \<longrightarrow>
        cid \<in> set (expired now (containers (track_container cfg env cid sb)))
        \<and> cid \<notin> set (map fst (containers (fst (snd
              (cleanup_expired_containers (track_container cfg env cid sb) now daemon)))))
        \<and> (client sb \<noteq> None \<longrightarrow>
             cid \<in> set (looked_up (snd (snd
               (cleanup_expired_containers (track_container cfg env cid sb) now daemon))))
             \<and> (get_res (daemon cid) = Ok () \<longrightarrow>
                  ContainerStop cid \<in> set (snd (snd
                    (cleanup_expired_containers (track_container cfg env cid sb) now daemon))))
             \<and> (get_res (daemon cid) = Ok () \<and> rm_stop_res (daemon cid) = Ok () \<longrightarrow>
                  ContainerRemove cid \<in> set (snd (snd
                    (cleanup_expired_containers (track_container cfg env cid sb) now daemon)))))"
  proof
    assume h: "CONTAINER_TTL cfg = 0 \<and> utcnow_expires env < now"
    let ?sb = "track_container cfg env cid sb"
    have ex: "cid \<in> set (expired now (containers ?sb))"
      using expired_mem[OF track_container_mem[of cid env cfg sb], of now] h
      by (simp add: timedelta_seconds_def)
    obtain cs where
      s: "cleanup_expired_containers ?sb now daemon =
            (Ok (),
             ?sb\<lparr>containers :=
                  filter (\<lambda>(k, info). k \<notin> set (expired now (containers ?sb))) (containers ?sb)\<rparr>,
             cs)"
      and l: "looked_up cs = (if client ?sb = None then [] else expired now (containers ?sb))"
      using cleanup_expired_containers_eq[of ?sb now daemon] by blast
    have cl: "client ?sb = client sb" by (simp add: track_container_def)
    have gone: "cid \<notin> set (map fst (containers (fst (snd
                  (cleanup_expired_containers ?sb now daemon)))))"
      using ex by (auto simp: s)
    have seen: "client sb \<noteq> None \<longrightarrow>
             cid \<in> set (looked_up (snd (snd (cleanup_expired_containers ?sb now daemon))))"
      using ex l cl by (simp add: s)
    have tried: "client sb \<noteq> None \<longrightarrow>
             (get_res (daemon cid) = Ok () \<longrightarrow>
                  ContainerStop cid \<in> set (snd (snd (cleanup_expired_containers ?sb now daemon))))
             \<and> (get_res (daemon cid) = Ok () \<and> rm_stop_res (daemon cid) = Ok () \<longrightarrow>
                  ContainerRemove cid
                    \<in> set (snd (snd (cleanup_expired_containers ?sb now daemon))))"
      using cleanup_attempts[of ?sb cid now daemon] ex cl by simp
    from ex gone seen tried
    show "cid \<in> set (expired now (containers ?sb))
        \<and> cid \<notin> set (map fst (containers (fst (snd (cleanup_expired_containers ?sb now daemon)))))
        \<and> (client sb \<noteq> None \<longrightarrow>
             cid \<in> set (looked_up (snd (snd (cleanup_expired_containers ?sb now daemon))))
             \<and> (get_res (daemon cid) = Ok () \<longrightarrow>
                  ContainerStop cid \<in> set (snd (snd (cleanup_expired_containers ?sb now daemon))))
             \<and> (get_res (daemon cid) = Ok () \<and> rm_stop_res (daemon cid) = Ok () \<longrightarrow>
                  ContainerRemove cid
                    \<in> set (snd (snd (cleanup_expired_containers ?sb now daemon)))))"
      by blast
  qed
  have four: "distinct (map fst (containers sb)) \<and> (cid, info) \<in> set (containers sb)
        \<and> (\<forall>t\<in>set (map fst ticks). t \<le> expires_at info) \<longrightarrow>
        (\<exists>sb' cs. cleanup_loop sb ticks = (Ok (), sb', cs) \<and> (cid, info) \<in> set (containers sb')
           \<and> cid \<notin> set (looked_up cs) \<and> (\<forall>c\<in>set cs. \<not> destroys cid c))"
    using cleanup_loop_keeps[of sb cid info ticks] by blast
  from one two three four show ?thesis by blast
qed

theorem cleanup_expired_containers_sweeps_expired_witness:
  "cleanup_expired_containers sweep_sandbox 6 sweep_daemon
     = (Ok (),
        \<lparr>client = Some DockerClient,
         containers = [(''b'', \<lparr>created_at = 0, expires_at = 5000\<rparr>)]\<rparr>,
        [ContainersGet ''a'', ContainerStop ''a'',
         Print ''Error removing container a: 500 Server Error''])
   \<and> distinct (map fst (containers sweep_sandbox))
   \<and> CONTAINER_TTL (default_settings\<lparr>CONTAINER_TTL := 0\<rparr>) = 0
   \<and> utcnow_expires quiet_env < 7
   \<and> ''c'' \<notin> set (map fst (containers (fst (snd
         (cleanup_expired_containers
            (track_container (default_settings\<lparr>CONTAINER_TTL := 0\<rparr>) quiet_env ''c''
               sweep_sandbox) 7 sweep_daemon)))))
   \<and> ''c'' \<in> set (looked_up (snd (snd
         (cleanup_expired_containers
            (track_container (default_settings\<lparr>CONTAINER_TTL := 0\<rparr>) quiet_env ''c''
               sweep_sandbox) 7 sweep_daemon))))
   \<and> ContainerRemove ''c'' \<in> set (snd (snd
         (cleanup_expired_containers
            (track_container (default_settings\<lparr>CONTAINER_TTL := 0\<rparr>) quiet_env ''c''
               sweep_sandbox) 7 sweep_daemon)))
   \<and> (''b'', \<lparr>created_at = 0, expires_at = 5000\<rparr>) \<in> set (containers sweep_sandbox)
   \<and> (''b'', \<lparr>created_at = 0, expires_at = 5000\<rparr>)
        \<in> set (containers (fst (snd (cleanup_loop sweep_sandbox
                  [(6, sweep_daemon), (5000, sweep_daemon)]))))"
  using cleanup_expired_containers_sweeps_expired
    [where sb = sweep_sandbox and now = 6 and daemon = sweep_daemon
       and cfg = "default_settings\<lparr>CONTAINER_TTL := 0\<rparr>" and env = quiet_env
       and cid = "''b''" and info = "\<lparr>created_at = 0, expires_at = 5000\<rparr>"
       and ticks = "[(6, sweep_daemon), (5000, sweep_daemon)]"]
    cleanup_expired_containers_sweeps_expired
    [where sb = sweep_sandbox and now = 7 and daemon = sweep_daemon
       and cfg = "default_settings\<lparr>CONTAINER_TTL := 0\<rparr>" and env = quiet_env
       and cid = "''c''" and info = "\<lparr>created_at = 0, expires_at = 5000\<rparr>"
       and ticks = "[]"]
  by (simp add: cleanup_expired_containers_def sweep_sandbox_def sweep_daemon_def expired_def
      remove_container_def remove_try_def AList.delete_eq track_container_def quiet_env_def
      default_settings_def timedelta_seconds_def)


text \<open>
  A container is tracked with a time to live of 0 and the next sweep reads the same
  clock value: nothing is called and the entry stays.
\<close>

theorem cleanup_expired_containers_same_reading_counterexample:
  "cleanup_expired_containers
     (track_container (default_settings\<lparr>CONTAINER_TTL := 0\<rparr>) quiet_env ''c''
        \<lparr>client = Some DockerClient, containers = []\<rparr>)
     (utcnow_expires quiet_env) sweep_daemon
   = (Ok (),
      \<lparr>client = Some DockerClient,
       containers = [(''c'', \<lparr>created_at = 6, expires_at = 6\<rparr>)]\<rparr>, [])"
  by (simp add: cleanup_expired_containers_def expired_def track_container_def quiet_env_def
      default_settings_def timedelta_seconds_def)

subsection \<open>\<^verbatim>\<open>execute_python_code\<close>: results and registry\<close>

lemma wait_container_outcome:
  "wait_container env cid timeout = (out, cs) \<Longrightarrow>
     (success out \<longrightarrow> error out = None \<and> output_text out \<noteq> None)
     \<and> (\<not> success out \<longrightarrow> error out \<noteq> None)"
  by (auto simp: wait_container_def wait_failed_def Let_def split: res.splits if_splits)

lemma try_body_fst_state_free:
  "fst (try_body cfg sb env code ti timeout) = fst (try_body cfg sb' env code ti timeout)"
  by (simp add: try_body_def Let_def split: res.splits prod.splits)

lemma try_body_outcome:
  "try_body cfg sb env code ti timeout = (Ok out, locals, sb', cs) \<Longrightarrow>
     (success out \<longrightarrow> error out = None \<and> output_text out \<noteq> None)
     \<and> (\<not> success out \<longrightarrow> error out \<noteq> None)"
  by (auto simp: try_body_def Let_def split: res.splits prod.splits dest: wait_container_outcome)

lemma cleanup_client: "client (fst (cleanup env locals sb)) = client sb"
  by (simp add: cleanup_def Let_def split: option.splits res.splits)

lemma try_body_client:
  "try_body cfg sb env code ti timeout = (r, locals, sb', cs) \<Longrightarrow> client sb' = client sb"
  by (auto simp: try_body_def Let_def track_container_def split: res.splits prod.splits)

lemma execute_python_code_returns:
  "\<exists>out sb' cs. execute_python_code cfg sb env code ti timeout = (Ok out, sb', cs)
      \<and> client sb' = client sb
      \<and> (success out \<longrightarrow> error out = None \<and> output_text out \<noteq> None)
      \<and> (\<not> success out \<longrightarrow> error out \<noteq> None)"
proof (cases "client sb")
  case None
  then show ?thesis by (simp add: execute_python_code_def)
next
  case (Some cl)
  let ?t = "case timeout of None \<Rightarrow> DOCKER_TIMEOUT cfg
            | Some t \<Rightarrow> if t = 0 then DOCKER_TIMEOUT cfg else t"
  obtain r locals sb1 cs1 where b: "try_body cfg sb env code ti ?t = (r, locals, sb1, cs1)"
    by (cases "try_body cfg sb env code ti ?t") auto
  obtain sb2 cs2 where c: "cleanup env locals sb1 = (sb2, cs2)"
    by (cases "cleanup env locals sb1") auto
  have cl: "client sb2 = client sb"
    using cleanup_client[of env locals sb1] c try_body_client[OF b] by simp
  show ?thesis
  proof (cases r)
    case (Ok out)
    then show ?thesis
      using Some b c cl try_body_outcome[of cfg sb env code ti ?t out locals sb1 cs1]
      by (simp add: execute_python_code_def Let_def)
  next
    case (Raise m)
    then show ?thesis
      using Some b c cl by (simp add: execute_python_code_def Let_def)
  qed
qed

lemma execute_python_code_fst:
  "fst (execute_python_code cfg sb env code ti timeout) =
     (case client sb of
        None \<Rightarrow>
          Ok \<lparr>success = False, output_text = None, error = Some ''Docker client not available'',
              execution_time = 0\<rparr>
      | Some cl \<Rightarrow>
          (case fst (try_body cfg sb env code ti
                  (case timeout of None \<Rightarrow> DOCKER_TIMEOUT cfg
                   | Some t \<Rightarrow> if t = 0 then DOCKER_TIMEOUT cfg else t)) of
             Ok out \<Rightarrow> Ok out
           | Raise m \<Rightarrow>
               Ok \<lparr>success = False, output_text = None, error = Some m,
                   execution_time = end_clock env - start_clock env\<rparr>))"
  by (simp add: execute_python_code_def Let_def split: option.splits prod.splits)

lemma execute_python_code_state_free:
  "client sb = client sb' \<Longrightarrow>
   fst (execute_python_code cfg sb env code ti timeout)
   = fst (execute_python_code cfg sb' env code ti timeout)"
  by (simp only: execute_python_code_fst try_body_fst_state_free[of cfg sb env code ti _ sb'])


lemma sandbox_same: "client sb' = client (sb::sandbox) \<Longrightarrow> containers sb' = containers sb \<Longrightarrow> sb' = sb"
  by simp

lemma cleanup_unbound:
  "container locals = None \<Longrightarrow> fst (cleanup env locals sb) = sb"
  by (simp add: cleanup_def)

lemma cleanup_bound:
  "container locals = Some cid \<Longrightarrow> stop_res env = Ok () \<Longrightarrow> remove_res env = Ok () \<Longrightarrow>
   fst (cleanup env locals sb) = sb\<lparr>containers := AList.delete cid (containers sb)\<rparr>"
  by (simp add: cleanup_def delete_absent)

lemma try_body_locals:
  "try_body cfg sb env code ti timeout = (r, locals, sb', cs) \<Longrightarrow>
     (container locals = None \<and> sb' = sb)
     \<or> (\<exists>cid. create_res env = Ok cid \<and> container locals = Some cid
              \<and> sb' = track_container cfg env cid sb)"
  by (auto simp: try_body_def Let_def split: res.splits prod.splits)

lemma delete_track:
  "AList.delete cid (containers (track_container cfg env cid sb)) = AList.delete cid (containers sb)"
  by (simp add: track_container_def AList.delete_update_same)

text \<open>
  C1 (as the code has it). A call returns a result and never raises, and it leaves the
  client alone. When the clean-up's \<^verbatim>\<open>container.stop\<close> and \<^verbatim>\<open>container.remove\<close> both
  succeed, the registry afterwards is the registry before the call, or, when a
  container was created, the registry before the call without the entry under the new
  container's id: the entry the call made is gone on every path (start failure, exit
  status zero or not, time-out or fault while waiting). With an id that was not
  registered before, the state after the call is the state before it.
\<close>

theorem execute_python_code_restores_registry:
  assumes "stop_res env = Ok ()" and "remove_res env = Ok ()"
  shows "\<exists>out sb' cs. execute_python_code cfg sb env code ti timeout = (Ok out, sb', cs)
           \<and> client sb' = client sb
           \<and> (containers sb' = containers sb
                \<or> (\<exists>cid. create_res env = Ok cid
                      \<and> containers sb' = AList.delete cid (containers sb)))
           \<and> ((\<forall>cid. create_res env = Ok cid \<longrightarrow> cid \<notin> set (map fst (containers sb)))
                \<longrightarrow> sb' = sb)"
proof -
  obtain out sb' cs where
    e: "execute_python_code cfg sb env code ti timeout = (Ok out, sb', cs)"
    and cl: "client sb' = client sb"
    using execute_python_code_returns[of cfg sb env code ti timeout] by blast
  have reg: "containers sb' = containers sb
      \<or> (\<exists>cid. create_res env = Ok cid \<and> containers sb' = AList.delete cid (containers sb))"
  proof (cases "client sb")
    case None
    then show ?thesis using e by (simp add: execute_python_code_def)
  next
    case (Some c)
    let ?t = "case timeout of None \<Rightarrow> DOCKER_TIMEOUT cfg
              | Some t \<Rightarrow> if t = 0 then DOCKER_TIMEOUT cfg else t"
    obtain r locals sb1 cs1 where b: "try_body cfg sb env code ti ?t = (r, locals, sb1, cs1)"
      by (cases "try_body cfg sb env code ti ?t") auto
    have sb': "sb' = fst (cleanup env locals sb1)"
      using e Some b by (simp add: execute_python_code_def Let_def split: prod.splits)
    from try_body_locals[OF b] show ?thesis
    proof
      assume "container locals = None \<and> sb1 = sb"
      then show ?thesis using sb' by (simp add: cleanup_unbound)
    next
      assume "\<exists>cid. create_res env = Ok cid \<and> container locals = Some cid
                \<and> sb1 = track_container cfg env cid sb"
      then obtain cid where c: "create_res env = Ok cid" "container locals = Some cid"
        "sb1 = track_container cfg env cid sb" by blast
      have "containers sb' = AList.delete cid (containers sb)"
        using sb' c cleanup_bound[OF c(2) assms, of sb1] by (simp add: delete_track)
      then show ?thesis using c(1) by blast
    qed
  qed
  have fresh: "(\<forall>cid. create_res env = Ok cid \<longrightarrow> cid \<notin> set (map fst (containers sb)))
                \<longrightarrow> sb' = sb"
    using reg cl by (auto simp: delete_absent intro: sandbox_same)
  show ?thesis using e cl reg fresh by blast
qed

theorem execute_python_code_restores_registry_witness:
  "stop_res quiet_env = Ok () \<and> remove_res quiet_env = Ok ()
   \<and> execute_python_code default_settings sweep_sandbox quiet_env ''print(1)'' None None
     = (Ok \<lparr>success = True, output_text = Some [], error = None, execution_time = 1\<rparr>,
        sweep_sandbox,
        [TempFileWrite ''print(1)'',
         ContainersCreate ''/code/tmpq.py'' ''/tmp'' ''256m'' 50000 False,
         ContainerStart ''c'', ContainerWait ''c'' 30, ContainerLogs ''c'',
         ContainerStop ''c'', ContainerRemove ''c'', Unlink ''/tmp/tmpq.py''])"
  using execute_python_code_restores_registry
    [of quiet_env default_settings sweep_sandbox "''print(1)''" None None]
  by (simp add: execute_python_code_def try_body_def wait_container_def cleanup_def
      track_container_def quiet_env_def sweep_sandbox_def default_settings_def dict_get_def
      timedelta_seconds_def AList.delete_eq Let_def)

text \<open>
  When the clean-up itself fails the entry stays: in the \<^verbatim>\<open>finally\<close> block the \<^verbatim>\<open>del\<close> of
  the entry stands after \<^verbatim>\<open>container.stop\<close> and \<^verbatim>\<open>container.remove\<close> in one \<^verbatim>\<open>try\<close>, so an
  exception of either skips it, and the sweep finds the container in the registry
  once it has expired. In the run below the program exits with status 0,
  \<^verbatim>\<open>container.stop\<close> raises, \<^verbatim>\<open>container.remove\<close> is never called, and the call returns
  success with the entry of its container in a registry that was empty before.
\<close>

theorem execute_python_code_keeps_entry_when_stop_fails:
  "execute_python_code default_settings \<lparr>client = Some DockerClient, containers = []\<rparr>
      (quiet_env\<lparr>stop_res := Raise ''500 Server Error''\<rparr>) ''print(1)'' None None
     = (Ok \<lparr>success = True, output_text = Some [], error = None, execution_time = 1\<rparr>,
        \<lparr>client = Some DockerClient,
         containers = [(''c'', \<lparr>created_at = 6, expires_at = 300000006\<rparr>)]\<rparr>,
        [TempFileWrite ''print(1)'',
         ContainersCreate ''/code/tmpq.py'' ''/tmp'' ''256m'' 50000 False,
         ContainerStart ''c'', ContainerWait ''c'' 30, ContainerLogs ''c'',
         ContainerStop ''c'', Unlink ''/tmp/tmpq.py''])
   \<and> containers (fst (snd (execute_python_code default_settings
          \<lparr>client = Some DockerClient, containers = []\<rparr>
          (quiet_env\<lparr>stop_res := Raise ''500 Server Error''\<rparr>) ''print(1)'' None None)))
       \<noteq> containers \<lparr>client = Some DockerClient, containers = []\<rparr>"
  by (simp add: execute_python_code_def try_body_def wait_container_def cleanup_def
      track_container_def quiet_env_def default_settings_def dict_get_def
      timedelta_seconds_def Let_def)

text \<open>
  C2 (as the code has it). Without a client the call returns at once the result with
  \<^verbatim>\<open>success\<close> false, no output, execution time 0 and the error text
  \<^verbatim>\<open>Docker client not available\<close>; it makes no outside call (no container is created)
  and the state, hence the registry, is unchanged. The text is not
  \<^verbatim>\<open>execution unavailable\<close>.
\<close>

theorem execute_python_code_disabled:
  "client sb = None \<Longrightarrow>
   execute_python_code cfg sb env code ti timeout =
     (Ok \<lparr>success = False, output_text = None, error = Some ''Docker client not available'',
          execution_time = 0\<rparr>,
      sb, [])"
  by (simp add: execute_python_code_def)

theorem execute_python_code_disabled_witness:
  "client \<lparr>client = None, containers = []\<rparr> = None
   \<and> execute_python_code default_settings \<lparr>client = None, containers = []\<rparr> quiet_env
        ''print(1)'' None None =
     (Ok \<lparr>success = False, output_text = None, error = Some ''Docker client not available'',
          execution_time = 0\<rparr>,
      \<lparr>client = None, containers = []\<rparr>, [])"
  using execute_python_code_disabled
    [of "\<lparr>client = None, containers = []\<rparr>" default_settings quiet_env "''print(1)''" None None]
  by simp

theorem execute_python_code_disabled_text_counterexample:
  "fst (execute_python_code default_settings \<lparr>client = None, containers = []\<rparr> quiet_env
          ''print(1)'' None None)
   \<noteq> Ok \<lparr>success = False, output_text = None, error = Some ''execution unavailable'',
          execution_time = 0\<rparr>"
  by (simp add: execute_python_code_def)

lemma str_int_137: "str_int 137 = ''137''"
  by code_simp

text \<open>
  C6. Every call returns a result, and in that result \<^verbatim>\<open>error\<close> is \<^verbatim>\<open>None\<close> when
  \<^verbatim>\<open>success\<close> is true and is not \<^verbatim>\<open>None\<close> when \<^verbatim>\<open>success\<close> is false.
\<close>

theorem execute_python_code_error_iff_failure:
  "\<exists>out. fst (execute_python_code cfg sb env code ti timeout) = Ok out
      \<and> (success out \<longrightarrow> error out = None) \<and> (\<not> success out \<longrightarrow> error out \<noteq> None)"
  using execute_python_code_returns[of cfg sb env code ti timeout] by auto

theorem execute_python_code_error_iff_failure_witness:
  "fst (execute_python_code default_settings sweep_sandbox quiet_env ''print(1)'' None None)
     = Ok \<lparr>success = True, output_text = Some [], error = None, execution_time = 1\<rparr>
   \<and> fst (execute_python_code default_settings sweep_sandbox
            (quiet_env\<lparr>wait_res := Ok [(''StatusCode'', 137)]\<rparr>) ''print(1)'' None None)
     = Ok \<lparr>success = False, output_text = Some [],
           error = Some ''Process exited with code 137'', execution_time = 1\<rparr>"
  using execute_python_code_error_iff_failure
    [of default_settings sweep_sandbox quiet_env "''print(1)''" None None]
    execute_python_code_error_iff_failure
    [of default_settings sweep_sandbox "quiet_env\<lparr>wait_res := Ok [(''StatusCode'', 137)]\<rparr>"
        "''print(1)''" None None]
  by (simp add: execute_python_code_def try_body_def wait_container_def cleanup_def
      track_container_def quiet_env_def sweep_sandbox_def default_settings_def dict_get_def
      timedelta_seconds_def AList.delete_eq Let_def str_int_137)

subsection \<open>\<^verbatim>\<open>execute_code_with_tests\<close>: results\<close>

lemma judge_ok:
  "success out \<longrightarrow> output_text out \<noteq> None \<Longrightarrow>
   \<exists>r. (\<forall>b. judge i tc out b = Ok (r, b \<and> passed r))
       \<and> test_case r = i + 1 \<and> input_value r = dict_get tc ''input'' (PyStr [])"
  by (cases "success out") (auto simp: judge_def Let_def)

lemma run_tests_spec:
  "\<exists>sb' rs cs'.
      run_tests cfg envs code i tcs (sb, results, ap, cs)
        = Ok (sb', results @ rs, ap \<and> list_all passed rs, cs')
      \<and> client sb' = client sb \<and> length rs = length tcs
      \<and> (\<forall>k<length tcs. \<exists>out.
            fst (execute_python_code cfg sb (envs (i + k))
                   (wrapped_code code (dict_get (tcs ! k) ''input'' (PyStr []))) None None) = Ok out
            \<and> (\<forall>b. judge (i + k) (tcs ! k) out b = Ok (rs ! k, b \<and> passed (rs ! k))))"
proof (induction tcs arbitrary: i sb results ap cs)
  case Nil
  then show ?case by simp
next
  case (Cons tc tcs)
  let ?code = "wrapped_code code (dict_get tc ''input'' (PyStr []))"
  obtain out sb1 cs1 where
    e: "execute_python_code cfg sb (envs i) ?code None None = (Ok out, sb1, cs1)"
    and cl1: "client sb1 = client sb"
    and so: "success out \<longrightarrow> output_text out \<noteq> None"
    using execute_python_code_returns[of cfg sb "envs i" ?code None None] by blast
  obtain r where j: "\<forall>b. judge i tc out b = Ok (r, b \<and> passed r)"
    using judge_ok[OF so, of i tc] by blast
  from Cons.IH[of "i + 1" sb1 "results @ [r]" "ap \<and> passed r" "cs @ cs1"]
  obtain sb' rs cs' where
    run: "run_tests cfg envs code (i + 1) tcs (sb1, results @ [r], ap \<and> passed r, cs @ cs1)
            = Ok (sb', (results @ [r]) @ rs, (ap \<and> passed r) \<and> list_all passed rs, cs')"
    and cl': "client sb' = client sb1" and len: "length rs = length tcs"
    and each: "\<forall>k<length tcs. \<exists>out.
            fst (execute_python_code cfg sb1 (envs (i + 1 + k))
                   (wrapped_code code (dict_get (tcs ! k) ''input'' (PyStr []))) None None) = Ok out
            \<and> (\<forall>b. judge (i + 1 + k) (tcs ! k) out b = Ok (rs ! k, b \<and> passed (rs ! k)))"
    by blast
  have step: "run_tests cfg envs code i (tc # tcs) (sb, results, ap, cs)
        = Ok (sb', results @ (r # rs), ap \<and> list_all passed (r # rs), cs')"
    using e j run by simp
  have all: "\<forall>k<length (tc # tcs). \<exists>out.
            fst (execute_python_code cfg sb (envs (i + k))
                   (wrapped_code code (dict_get ((tc # tcs) ! k) ''input'' (PyStr []))) None None)
              = Ok out
            \<and> (\<forall>b. judge (i + k) ((tc # tcs) ! k) out b
                     = Ok ((r # rs) ! k, b \<and> passed ((r # rs) ! k)))"
  proof (intro allI impI)
    fix k assume k: "k < length (tc # tcs)"
    show "\<exists>out.
            fst (execute_python_code cfg sb (envs (i + k))
                   (wrapped_code code (dict_get ((tc # tcs) ! k) ''input'' (PyStr []))) None None)
              = Ok out
            \<and> (\<forall>b. judge (i + k) ((tc # tcs) ! k) out b
                     = Ok ((r # rs) ! k, b \<and> passed ((r # rs) ! k)))"
    proof (cases k)
      case 0
      then show ?thesis using e j by simp
    next
      case (Suc k')
      then have "k' < length tcs" using k by simp
      with each obtain out' where
        o: "fst (execute_python_code cfg sb1 (envs (i + 1 + k'))
                   (wrapped_code code (dict_get (tcs ! k') ''input'' (PyStr []))) None None) = Ok out'"
        and jj: "\<forall>b. judge (i + 1 + k') (tcs ! k') out' b = Ok (rs ! k', b \<and> passed (rs ! k'))"
        by blast
      have "fst (execute_python_code cfg sb (envs (i + 1 + k'))
                   (wrapped_code code (dict_get (tcs ! k') ''input'' (PyStr []))) None None) = Ok out'"
        using o execute_python_code_state_free[OF cl1] by simp
      then show ?thesis using jj Suc by auto
    qed
  qed
  show ?case
    using step all cl' cl1 len by (intro exI[of _ sb'] exI[of _ "r # rs"] exI[of _ cs']) simp
qed

lemma filter_all_length: "length (filter P xs) = length xs \<longleftrightarrow> list_all P xs"
proof (induction xs)
  case Nil
  then show ?case by simp
next
  case (Cons x xs)
  have le: "length (filter P xs) \<le> length xs" by (rule length_filter_le)
  show ?case
  proof (cases "P x")
    case True
    then show ?thesis using Cons by simp
  next
    case False
    have "length (filter P xs) \<noteq> Suc (length xs)" using le by linarith
    with False show ?thesis by simp
  qed
qed

lemma suite_spec:
  "\<exists>sb' rs cs.
      execute_code_with_tests cfg sb envs code tcs
        = Ok (\<lparr>suite_success = list_all passed rs, test_results = rs,
                total_tests = length tcs, passed_tests = length (filter passed rs)\<rparr>, sb', cs)
      \<and> client sb' = client sb \<and> length rs = length tcs
      \<and> (\<forall>k<length tcs. \<exists>out.
            fst (execute_python_code cfg sb (envs k)
                   (wrapped_code code (dict_get (tcs ! k) ''input'' (PyStr []))) None None) = Ok out
            \<and> (\<forall>b. judge k (tcs ! k) out b = Ok (rs ! k, b \<and> passed (rs ! k))))"
proof -
  from run_tests_spec[of cfg envs code 0 tcs sb "[]" True "[]"]
  obtain sb' rs cs' where
    run: "run_tests cfg envs code 0 tcs (sb, [], True, []) = Ok (sb', rs, list_all passed rs, cs')"
    and rest: "client sb' = client sb" "length rs = length tcs"
      "\<forall>k<length tcs. \<exists>out.
            fst (execute_python_code cfg sb (envs k)
                   (wrapped_code code (dict_get (tcs ! k) ''input'' (PyStr []))) None None) = Ok out
            \<and> (\<forall>b. judge k (tcs ! k) out b = Ok (rs ! k, b \<and> passed (rs ! k)))"
    by auto
  show ?thesis
    using run rest by (simp add: execute_code_with_tests_def)
qed

lemma judge_success:
  "judge i tc out b = Ok (r, b') \<Longrightarrow> success out \<Longrightarrow>
   \<exists>text. output_text out = Some text
      \<and> r = Compared (i + 1)
              (strip text = strip (py_str (dict_get tc ''expected_output'' (PyStr []))))
              (dict_get tc ''input'' (PyStr []))
              (strip (py_str (dict_get tc ''expected_output'' (PyStr []))))
              (strip text) (execution_time out)"
  by (auto simp: judge_def Let_def split: option.splits)

lemma judge_failure:
  "judge i tc out b = Ok (r, b') \<Longrightarrow> \<not> success out \<Longrightarrow>
   r = Failed (i + 1) False (dict_get tc ''input'' (PyStr []))
         (dict_get tc ''expected_output'' (PyStr [])) (error out) (output_text out)
         (execution_time out)"
  by (auto simp: judge_def Let_def)

lemma judge_index:
  "judge i tc out b = Ok (r, b') \<Longrightarrow>
   test_case r = i + 1 \<and> input_value r = dict_get tc ''input'' (PyStr [])"
  by (auto simp: judge_def Let_def split: if_splits option.splits)

lemma strip_examples:
  "strip ''3\<newline>'' = ''3''" "strip ''3'' = ''3''" "strip [] = []"
  "strip ''true\<newline>'' = ''true''" "strip ''true'' = ''true''"
  by code_simp+

lemma str_int_3: "str_int 3 = ''3''"
  by code_simp

lemma suite_example:
  "\<exists>sb' cs. execute_code_with_tests default_settings sweep_sandbox suite_envs ''code'' suite_cases
     = Ok (\<lparr>suite_success = False,
             test_results =
               [Failed 1 False (PyStr ''[1, 2]'') (PyStr ''3'') (Some ''No such image'') None 1,
                Compared 2 True (PyStr ''[1, 2]'') ''3'' ''3'' 1,
                Compared 3 False (PyStr []) [] ''3'' 1],
             total_tests = 3, passed_tests = 1\<rparr>, sb', cs)"
  by (simp add: execute_code_with_tests_def suite_cases_def suite_envs_def
      execute_python_code_def try_body_def wait_container_def cleanup_def judge_def
      track_container_def quiet_env_def sweep_sandbox_def default_settings_def dict_get_def
      timedelta_seconds_def AList.delete_eq Let_def strip_examples str_int_3)

text \<open>
  C3. For every list of test cases and whatever the executions do, the function
  returns a result in which \<^verbatim>\<open>passed_tests\<close> is the number of results whose \<^verbatim>\<open>passed\<close>
  is true, \<^verbatim>\<open>total_tests\<close> is the length of the list (which is also the number of
  results), and \<^verbatim>\<open>success\<close> is true exactly when the two counts are equal. For the
  empty list both counts are 0 and \<^verbatim>\<open>success\<close> is true.
\<close>

theorem execute_code_with_tests_counts:
  "(\<exists>sr sb' cs. execute_code_with_tests cfg sb envs code tcs = Ok (sr, sb', cs)
       \<and> passed_tests sr = length (filter passed (test_results sr))
       \<and> total_tests sr = length tcs
       \<and> length (test_results sr) = length tcs
       \<and> (suite_success sr \<longleftrightarrow> passed_tests sr = total_tests sr))
   \<and> execute_code_with_tests cfg sb envs code []
       = Ok (\<lparr>suite_success = True, test_results = [], total_tests = 0, passed_tests = 0\<rparr>, sb, [])"
proof -
  obtain sb' rs cs where
    e: "execute_code_with_tests cfg sb envs code tcs
        = Ok (\<lparr>suite_success = list_all passed rs, test_results = rs,
                total_tests = length tcs, passed_tests = length (filter passed rs)\<rparr>, sb', cs)"
    and len: "length rs = length tcs"
    using suite_spec[of cfg sb envs code tcs] by blast
  have "list_all passed rs \<longleftrightarrow> length (filter passed rs) = length tcs"
    using filter_all_length[of passed rs] len by simp
  then have first: "\<exists>sr sb' cs. execute_code_with_tests cfg sb envs code tcs = Ok (sr, sb', cs)
       \<and> passed_tests sr = length (filter passed (test_results sr))
       \<and> total_tests sr = length tcs
       \<and> length (test_results sr) = length tcs
       \<and> (suite_success sr \<longleftrightarrow> passed_tests sr = total_tests sr)"
    using e len by simp
  have "execute_code_with_tests cfg sb envs code []
       = Ok (\<lparr>suite_success = True, test_results = [], total_tests = 0, passed_tests = 0\<rparr>, sb, [])"
    by (simp add: execute_code_with_tests_def)
  with first show ?thesis by blast
qed

theorem execute_code_with_tests_counts_witness:
  "(\<exists>sr sb' cs.
      execute_code_with_tests default_settings sweep_sandbox suite_envs ''code'' suite_cases
        = Ok (sr, sb', cs)
      \<and> map passed (test_results sr) = [False, True, False]
      \<and> passed_tests sr = 1 \<and> total_tests sr = 3 \<and> \<not> suite_success sr)
   \<and> execute_code_with_tests default_settings sweep_sandbox suite_envs ''code'' []
       = Ok (\<lparr>suite_success = True, test_results = [], total_tests = 0, passed_tests = 0\<rparr>,
             sweep_sandbox, [])"
  using execute_code_with_tests_counts
    [of default_settings sweep_sandbox suite_envs "''code''" suite_cases] suite_example
  by auto

text \<open>
  C5. The result at position \<open>i\<close> comes from the outcome of the execution of test case
  \<open>i\<close>. When that outcome has \<^verbatim>\<open>success\<close> true, the result is the compared one and its
  \<^verbatim>\<open>passed\<close> is the equality of the stripped output and the stripped text of the
  expected output. When \<^verbatim>\<open>success\<close> is false, the result is the failed one: \<^verbatim>\<open>passed\<close>
  false, with the outcome's error text and output as they are.
\<close>

theorem execute_code_with_tests_judges_each_case:
  "\<exists>sr sb' cs. execute_code_with_tests cfg sb envs code tcs = Ok (sr, sb', cs)
     \<and> (\<forall>i<length tcs. \<exists>out.
           fst (execute_python_code cfg sb (envs i)
                  (wrapped_code code (dict_get (tcs ! i) ''input'' (PyStr []))) None None) = Ok out
           \<and> (success out \<longrightarrow>
                (\<exists>text. output_text out = Some text
                   \<and> test_results sr ! i =
                       Compared (i + 1)
                         (strip text = strip (py_str (dict_get (tcs ! i) ''expected_output'' (PyStr []))))
                         (dict_get (tcs ! i) ''input'' (PyStr []))
                         (strip (py_str (dict_get (tcs ! i) ''expected_output'' (PyStr []))))
                         (strip text) (execution_time out)))
           \<and> (\<not> success out \<longrightarrow>
                test_results sr ! i =
                  Failed (i + 1) False (dict_get (tcs ! i) ''input'' (PyStr []))
                    (dict_get (tcs ! i) ''expected_output'' (PyStr [])) (error out)
                    (output_text out) (execution_time out)))"
proof -
  obtain sb' rs cs where
    e: "execute_code_with_tests cfg sb envs code tcs
        = Ok (\<lparr>suite_success = list_all passed rs, test_results = rs,
                total_tests = length tcs, passed_tests = length (filter passed rs)\<rparr>, sb', cs)"
    and each: "\<forall>k<length tcs. \<exists>out.
            fst (execute_python_code cfg sb (envs k)
                   (wrapped_code code (dict_get (tcs ! k) ''input'' (PyStr []))) None None) = Ok out
            \<and> (\<forall>b. judge k (tcs ! k) out b = Ok (rs ! k, b \<and> passed (rs ! k)))"
    using suite_spec[of cfg sb envs code tcs] by blast
  have "\<forall>i<length tcs. \<exists>out.
           fst (execute_python_code cfg sb (envs i)
                  (wrapped_code code (dict_get (tcs ! i) ''input'' (PyStr []))) None None) = Ok out
           \<and> (success out \<longrightarrow>
                (\<exists>text. output_text out = Some text
                   \<and> rs ! i =
                       Compared (i + 1)
                         (strip text = strip (py_str (dict_get (tcs ! i) ''expected_output'' (PyStr []))))
                         (dict_get (tcs ! i) ''input'' (PyStr []))
                         (strip (py_str (dict_get (tcs ! i) ''expected_output'' (PyStr []))))
                         (strip text) (execution_time out)))
           \<and> (\<not> success out \<longrightarrow>
                rs ! i =
                  Failed (i + 1) False (dict_get (tcs ! i) ''input'' (PyStr []))
                    (dict_get (tcs ! i) ''expected_output'' (PyStr [])) (error out)
                    (output_text out) (execution_time out))"
  proof (intro allI impI)
    fix i assume "i < length tcs"
    with each obtain out where
      o: "fst (execute_python_code cfg sb (envs i)
                  (wrapped_code code (dict_get (tcs ! i) ''input'' (PyStr []))) None None) = Ok out"
      and j: "judge i (tcs ! i) out True = Ok (rs ! i, True \<and> passed (rs ! i))"
      by blast
    show "\<exists>out.
           fst (execute_python_code cfg sb (envs i)
                  (wrapped_code code (dict_get (tcs ! i) ''input'' (PyStr []))) None None) = Ok out
           \<and> (success out \<longrightarrow>
                (\<exists>text. output_text out = Some text
                   \<and> rs ! i =
                       Compared (i + 1)
                         (strip text = strip (py_str (dict_get (tcs ! i) ''expected_output'' (PyStr []))))
                         (dict_get (tcs ! i) ''input'' (PyStr []))
                         (strip (py_str (dict_get (tcs ! i) ''expected_output'' (PyStr []))))
                         (strip text) (execution_time out)))
           \<and> (\<not> success out \<longrightarrow>
                rs ! i =
                  Failed (i + 1) False (dict_get (tcs ! i) ''input'' (PyStr []))
                    (dict_get (tcs ! i) ''expected_output'' (PyStr [])) (error out)
                    (output_text out) (execution_time out))"
      using o judge_success[OF j] judge_failure[OF j] by blast
  qed
  then show ?thesis using e by simp
qed

theorem execute_code_with_tests_judges_each_case_witness:
  "\<exists>sr sb' cs.
      execute_code_with_tests default_settings sweep_sandbox suite_envs ''code'' suite_cases
        = Ok (sr, sb', cs)
      \<and> test_results sr ! 0
          = Failed 1 False (PyStr ''[1, 2]'') (PyStr ''3'') (Some ''No such image'') None 1
      \<and> test_results sr ! 1 = Compared 2 True (PyStr ''[1, 2]'') ''3'' ''3'' 1"
  using execute_code_with_tests_judges_each_case
    [of default_settings sweep_sandbox suite_envs "''code''" suite_cases] suite_example
  by auto

text \<open>
  C7. For every list of test cases and whatever the executions do (also when they
  fail), the function returns normally with one result per test case, in the order
  of the list: the results carry the numbers 1, 2, ... and the inputs of their test
  cases, and the result at each position is the verdict on the execution of that
  position's test case.
\<close>

theorem execute_code_with_tests_one_result_per_case:
  "\<exists>sr sb' cs. execute_code_with_tests cfg sb envs code tcs = Ok (sr, sb', cs)
     \<and> length (test_results sr) = length tcs
     \<and> map test_case (test_results sr) = [1..<length tcs + 1]
     \<and> map input_value (test_results sr) = map (\<lambda>tc. dict_get tc ''input'' (PyStr [])) tcs
     \<and> (\<forall>i<length tcs. \<exists>out.
           fst (execute_python_code cfg sb (envs i)
                  (wrapped_code code (dict_get (tcs ! i) ''input'' (PyStr []))) None None) = Ok out
           \<and> judge i (tcs ! i) out True
               = Ok (test_results sr ! i, passed (test_results sr ! i)))"
proof -
  obtain sb' rs cs where
    e: "execute_code_with_tests cfg sb envs code tcs
        = Ok (\<lparr>suite_success = list_all passed rs, test_results = rs,
                total_tests = length tcs, passed_tests = length (filter passed rs)\<rparr>, sb', cs)"
    and len: "length rs = length tcs"
    and each: "\<forall>k<length tcs. \<exists>out.
            fst (execute_python_code cfg sb (envs k)
                   (wrapped_code code (dict_get (tcs ! k) ''input'' (PyStr []))) None None) = Ok out
            \<and> (\<forall>b. judge k (tcs ! k) out b = Ok (rs ! k, b \<and> passed (rs ! k)))"
    using suite_spec[of cfg sb envs code tcs] by blast
  have idx: "\<forall>k<length tcs. test_case (rs ! k) = k + 1
                \<and> input_value (rs ! k) = dict_get (tcs ! k) ''input'' (PyStr [])"
  proof (intro allI impI)
    fix k assume "k < length tcs"
    with each obtain out where "judge k (tcs ! k) out True = Ok (rs ! k, True \<and> passed (rs ! k))"
      by blast
    then show "test_case (rs ! k) = k + 1
                \<and> input_value (rs ! k) = dict_get (tcs ! k) ''input'' (PyStr [])"
      by (rule judge_index)
  qed
  have m1: "map test_case rs = [1..<length tcs + 1]"
  proof (rule nth_equalityI)
    show "length (map test_case rs) = length [1..<length tcs + 1]"
      using len by (simp del: upt_Suc)
  next
    fix i assume "i < length (map test_case rs)"
    then have i: "i < length tcs" using len by simp
    then have "[1..<length tcs + 1] ! i = 1 + i" by (intro nth_upt) simp
    then show "map test_case rs ! i = [1..<length tcs + 1] ! i"
      using idx i len by (simp del: upt_Suc)
  qed
  have m2: "map input_value rs = map (\<lambda>tc. dict_get tc ''input'' (PyStr [])) tcs"
    using idx len by (intro nth_equalityI) auto
  have ev: "\<forall>i<length tcs. \<exists>out.
           fst (execute_python_code cfg sb (envs i)
                  (wrapped_code code (dict_get (tcs ! i) ''input'' (PyStr []))) None None) = Ok out
           \<and> judge i (tcs ! i) out True = Ok (rs ! i, passed (rs ! i))"
    using each by fastforce
  show ?thesis using e len m1 m2 ev by simp
qed

theorem execute_code_with_tests_one_result_per_case_witness:
  "\<exists>sb' cs. execute_code_with_tests default_settings sweep_sandbox suite_envs ''code'' suite_cases
     = Ok (\<lparr>suite_success = False,
             test_results =
               [Failed 1 False (PyStr ''[1, 2]'') (PyStr ''3'') (Some ''No such image'') None 1,
                Compared 2 True (PyStr ''[1, 2]'') ''3'' ''3'' 1,
                Compared 3 False (PyStr []) [] ''3'' 1],
             total_tests = 3, passed_tests = 1\<rparr>, sb', cs)
     \<and> map test_case
          [Failed 1 False (PyStr ''[1, 2]'') (PyStr ''3'') (Some ''No such image'') None 1,
           Compared 2 True (PyStr ''[1, 2]'') ''3'' ''3'' 1,
           Compared 3 False (PyStr []) [] ''3'' 1] = [1..<length suite_cases + 1]"
  using execute_code_with_tests_one_result_per_case
    [of default_settings sweep_sandbox suite_envs "''code''" suite_cases] suite_example
  by (auto simp: suite_cases_def)

subsection \<open>Missing keys\<close>

lemma dict_get_fill_missing:
  "dict_get (fill_missing tc) ''input'' (PyStr []) = dict_get tc ''input'' (PyStr [])"
  "dict_get (fill_missing tc) ''expected_output'' (PyStr []) = dict_get tc ''expected_output'' (PyStr [])"
  by (simp_all add: dict_get_def fill_missing_def map_add_def split: option.splits)

lemma judge_fill_missing: "judge i (fill_missing tc) out b = judge i tc out b"
  by (simp add: judge_def dict_get_fill_missing)

lemma run_tests_fill_missing:
  "run_tests cfg envs code i (map fill_missing tcs) st = run_tests cfg envs code i tcs st"
proof (induction tcs arbitrary: i st)
  case Nil
  then show ?case by simp
next
  case (Cons tc tcs)
  obtain sb results ap cs where st: "st = (sb, results, ap, cs)" by (cases st) auto
  show ?case
    unfolding st
    by (simp add: dict_get_fill_missing judge_fill_missing Cons.IH
        split: prod.splits res.splits)
qed

lemma judge_missing_expected:
  "judge i tc out b = Ok (r, b') \<Longrightarrow> map_of tc ''expected_output'' = None \<Longrightarrow>
   (case r of
      Compared n p inp e a t \<Rightarrow> e = [] \<and> p = (a = [])
    | Failed n p inp e f po t \<Rightarrow> e = PyStr [])"
  by (auto simp: judge_def Let_def dict_get_def strip_def split: if_splits option.splits)

text \<open>
  C10. A test case without the key \<^verbatim>\<open>input\<close> or \<^verbatim>\<open>expected_output\<close> is run as if the
  key were there with the empty string: the whole run equals the run on the test cases
  with the missing keys filled in. The function returns normally with a result for
  every test case; a missing input is reported as the empty string, and a missing
  expected output as the empty string, against which the stripped output is compared.
\<close>

theorem execute_code_with_tests_missing_fields:
  "execute_code_with_tests cfg sb envs code tcs
     = execute_code_with_tests cfg sb envs code (map fill_missing tcs)
   \<and> (\<exists>sr sb' cs. execute_code_with_tests cfg sb envs code tcs = Ok (sr, sb', cs)
         \<and> length (test_results sr) = length tcs
         \<and> (\<forall>i<length tcs.
               (map_of (tcs ! i) ''input'' = None
                  \<longrightarrow> input_value (test_results sr ! i) = PyStr [])
               \<and> (map_of (tcs ! i) ''expected_output'' = None
                  \<longrightarrow> (case test_results sr ! i of
                         Compared n p inp e a t \<Rightarrow> e = [] \<and> p = (a = [])
                       | Failed n p inp e f po t \<Rightarrow> e = PyStr []))))"
proof -
  have same: "execute_code_with_tests cfg sb envs code tcs
     = execute_code_with_tests cfg sb envs code (map fill_missing tcs)"
    by (simp add: execute_code_with_tests_def run_tests_fill_missing
        split: res.splits prod.splits)
  obtain sb' rs cs where
    e: "execute_code_with_tests cfg sb envs code tcs
        = Ok (\<lparr>suite_success = list_all passed rs, test_results = rs,
                total_tests = length tcs, passed_tests = length (filter passed rs)\<rparr>, sb', cs)"
    and len: "length rs = length tcs"
    and each: "\<forall>k<length tcs. \<exists>out.
            fst (execute_python_code cfg sb (envs k)
                   (wrapped_code code (dict_get (tcs ! k) ''input'' (PyStr []))) None None) = Ok out
            \<and> (\<forall>b. judge k (tcs ! k) out b = Ok (rs ! k, b \<and> passed (rs ! k)))"
    using suite_spec[of cfg sb envs code tcs] by blast
  have miss: "\<forall>i<length tcs.
               (map_of (tcs ! i) ''input'' = None \<longrightarrow> input_value (rs ! i) = PyStr [])
               \<and> (map_of (tcs ! i) ''expected_output'' = None
                  \<longrightarrow> (case rs ! i of
                         Compared n p inp e a t \<Rightarrow> e = [] \<and> p = (a = [])
                       | Failed n p inp e f po t \<Rightarrow> e = PyStr []))"
  proof (intro allI impI)
    fix i assume "i < length tcs"
    with each obtain out where
      j: "judge i (tcs ! i) out True = Ok (rs ! i, True \<and> passed (rs ! i))"
      by blast
    have a: "map_of (tcs ! i) ''input'' = None \<longrightarrow> input_value (rs ! i) = PyStr []"
      using judge_index[OF j] by (simp add: dict_get_def)
    have b: "map_of (tcs ! i) ''expected_output'' = None
                  \<longrightarrow> (case rs ! i of
                         Compared n p inp e a t \<Rightarrow> e = [] \<and> p = (a = [])
                       | Failed n p inp e f po t \<Rightarrow> e = PyStr [])"
      using judge_missing_expected[OF j] by blast
    from a b show "(map_of (tcs ! i) ''input'' = None \<longrightarrow> input_value (rs ! i) = PyStr [])
               \<and> (map_of (tcs ! i) ''expected_output'' = None
                  \<longrightarrow> (case rs ! i of
                         Compared n p inp e a t \<Rightarrow> e = [] \<and> p = (a = [])
                       | Failed n p inp e f po t \<Rightarrow> e = PyStr []))"
      by blast
  qed
  have "\<exists>sr sb' cs. execute_code_with_tests cfg sb envs code tcs = Ok (sr, sb', cs)
         \<and> length (test_results sr) = length tcs
         \<and> (\<forall>i<length tcs.
               (map_of (tcs ! i) ''input'' = None
                  \<longrightarrow> input_value (test_results sr ! i) = PyStr [])
               \<and> (map_of (tcs ! i) ''expected_output'' = None
                  \<longrightarrow> (case test_results sr ! i of
                         Compared n p inp e a t \<Rightarrow> e = [] \<and> p = (a = [])
                       | Failed n p inp e f po t \<Rightarrow> e = PyStr [])))"
    using e len miss by simp
  with same show ?thesis by (rule conjI)
qed

theorem execute_code_with_tests_missing_fields_witness:
  "map_of (suite_cases ! 2) ''input'' = None
   \<and> map_of (suite_cases ! 2) ''expected_output'' = None
   \<and> (\<exists>sr sb' cs.
        execute_code_with_tests default_settings sweep_sandbox suite_envs ''code''
          (map fill_missing suite_cases) = Ok (sr, sb', cs)
        \<and> test_results sr ! 2 = Compared 3 False (PyStr []) [] ''3'' 1)"
  using execute_code_with_tests_missing_fields
    [of default_settings sweep_sandbox suite_envs "''code''" suite_cases] suite_example
  by (auto simp: suite_cases_def)

subsection \<open>The harness\<close>







lemma run_harness_failure:
  "solution w (call_arguments w raw) = Raise m \<Longrightarrow>
   stdout (fst (run_harness w raw)) = []
   \<and> stderr (fst (run_harness w raw)) = ''Error: '' @ m @ ''\<newline>''
   \<and> snd (run_harness w raw) = Raise m"
  by (auto simp: run_harness_def harness_program_def call_arguments_def
      split: res.splits parsed.splits)




end
